theory Spec2Isabelle
  imports Main "HOL-Library.Word" "HOL-Library.AList"
begin

unbundle bit_operations_syntax

section \<open>L2TP control messages: the data model\<close>

type_synonym byte = "8 word"
type_synonym uint16 = "16 word"
type_synonym uint32 = "32 word"

text \<open>
  Modelled from the spec: the declarations of \<open>avpType\<close> and \<open>avpMsgType\<close> belong to the
  AVP subsystem, which is not among the sources. The source names the constants below and
  uses them as distinct map keys and switch labels; every other value of the two
  enumerations is kept as \<open>avpTypeOther\<close> / \<open>avpMsgTypeOther\<close>.
\<close>

datatype avpType =
    avpTypeMessage
  | avpTypeResultCode
  | avpTypeProtocolVersion
  | avpTypeFramingCap
  | avpTypeBearerCap
  | avpTypeTiebreaker
  | avpTypeFirmwareRevision
  | avpTypeHostName
  | avpTypeVendorName
  | avpTypeTunnelID
  | avpTypeRxWindowSize
  | avpTypeChallenge
  | avpTypeChallengeResponse
  | avpTypeOther nat

datatype avpMsgType =
    avpMsgTypeSccrq
  | avpMsgTypeSccrp
  | avpMsgTypeScccn
  | avpMsgTypeStopccn
  | avpMsgTypeHello
  | avpMsgTypeAck
  | avpMsgTypeOther nat

text \<open>The values handed to \<open>newAvp\<close> through the \<open>interface{}\<close> field of \<open>avpIn\<close>.\<close>

datatype 'rc avpData =
    DataMsgType avpMsgType
  | DataBytes "byte list"
  | DataString string
  | DataUint16 uint16
  | DataUint32 uint32
  | DataResultCode 'rc

text \<open>
  The AVP subsystem as the message layer consumes it. Its functions are parameters of the
  model: \<open>'a\<close> is the type \<open>avp\<close>, \<open>'rc\<close> the type \<open>resultCode\<close>, and an error of the
  subsystem is its message. \<open>avpHeaderBytes\<close> and \<open>avpPayloadData\<close> are what
  \<open>binary.Write\<close> emits for \<open>avp.header\<close> and \<open>avp.payload.data\<close>.
\<close>

record ('a, 'rc) avpOps =
  parseAVPBuffer :: "byte list \<Rightarrow> string + 'a list"
  avpGetType :: "'a \<Rightarrow> avpType"
  avpDecode :: "'a \<Rightarrow> string + 'rc avpData"
  decodeMsgType :: "'a \<Rightarrow> string + avpMsgType"
  totalLen :: "'a \<Rightarrow> int"
  avpHeaderBytes :: "'a \<Rightarrow> byte list"
  avpPayloadData :: "'a \<Rightarrow> byte list"
  vendorIDIetf :: uint16
  newAvp :: "uint16 \<Rightarrow> avpType \<Rightarrow> 'rc avpData \<Rightarrow> string + 'a"
  avpsLengthBytes :: "'a list \<Rightarrow> int"

datatype panic =
    InvalidL2TPv2Message
  | InvalidL2TPv3Message
  | FailedToDecodeMsgType string
  | UnhandledProtocolVersion
  | SliceBoundsOutOfRange
  | IndexOutOfRange

datatype error =
    ErrEOF
  | ErrUnexpectedEOF
  | MalformedBufferOffset
  | MalformedHeaderLength nat nat
  | IllegalProtocolVersion
  | MalformedBufferLength
  | AvpError string
  | FirstAvpNotMessageTypeV2
  | FirstAvpNotMessageTypeV3
  | NotImplemented
  | NoSpecification avpMsgType
  | UnexpectedAvp avpType avpMsgType
  | FailedToDecodeAvp avpType avpMsgType string
  | MissingMandatoryAvp avpType avpMsgType
  | TunnelIdOutOfRange uint32
  | SessionIdOutOfRange uint32
  | FailedToCreateAvp avpType string
  | Panic panic

record l2tpCommonHeader =
  FlagsVer :: uint16
  Len :: uint16

record l2tpV2Header =
  Common :: l2tpCommonHeader
  Tid :: uint16
  Sid :: uint16
  Ns :: uint16
  Nr :: uint16

record l2tpV3Header =
  v3Common :: l2tpCommonHeader
  Ccid :: uint32
  v3Ns :: uint16
  v3Nr :: uint16

definition controlMessageMinLen :: nat where
  "controlMessageMinLen = 12"

definition commonHeaderLen :: nat where
  "commonHeaderLen = 4"

definition v2HeaderLen :: nat where
  "v2HeaderLen = 12"

definition v3HeaderLen :: nat where
  "v3HeaderLen = 12"

datatype ProtocolVersion = ProtocolVersionInvalid | ProtocolVersion2 | ProtocolVersion3

record 'a v2ControlMessage =
  header :: l2tpV2Header
  avps :: "'a list"

record 'a v3ControlMessage =
  v3header :: l2tpV3Header
  v3avps :: "'a list"

datatype 'a controlMessage =
    V2Message "'a v2ControlMessage"
  | V3Message "'a v3ControlMessage"

section \<open>Big-endian fields and slices\<close>

definition be16 :: "byte \<Rightarrow> byte \<Rightarrow> uint16" where
  "be16 hi lo = push_bit 8 (ucast hi) OR ucast lo"

definition be32 :: "byte \<Rightarrow> byte \<Rightarrow> byte \<Rightarrow> byte \<Rightarrow> uint32" where
  "be32 b0 b1 b2 b3 =
     push_bit 24 (ucast b0) OR push_bit 16 (ucast b1) OR push_bit 8 (ucast b2) OR ucast b3"

definition putUint16 :: "uint16 \<Rightarrow> byte list" where
  "putUint16 w = [ucast (drop_bit 8 w), ucast w]"

definition putUint32 :: "uint32 \<Rightarrow> byte list" where
  "putUint32 w = [ucast (drop_bit 24 w), ucast (drop_bit 16 w), ucast (drop_bit 8 w), ucast w]"

text \<open>\<open>b[lo:hi]\<close> for \<open>lo \<le> hi \<le> len(b)\<close>; the callers check the bounds.\<close>

definition subSlice :: "'b list \<Rightarrow> nat \<Rightarrow> nat \<Rightarrow> 'b list" where
  "subSlice b lo hi = take (hi - lo) (drop lo b)"

section \<open>Header parsing and version dispatch\<close>

definition protocolVersion :: "l2tpCommonHeader \<Rightarrow> error + ProtocolVersion" where
  "protocolVersion h =
     (if FlagsVer h AND 0xf = 2 then Inr ProtocolVersion2
      else if FlagsVer h AND 0xf = 3 then Inr ProtocolVersion3
      else Inl IllegalProtocolVersion)"

definition newL2tpV2MessageHeader ::
    "uint16 \<Rightarrow> uint16 \<Rightarrow> uint16 \<Rightarrow> uint16 \<Rightarrow> int \<Rightarrow> l2tpV2Header" where
  "newL2tpV2MessageHeader tid sid ns nr payloadBytes =
     \<lparr>Common = \<lparr>FlagsVer = 0xc802, Len = word_of_int (int v2HeaderLen + payloadBytes)\<rparr>,
      Tid = tid, Sid = sid, Ns = ns, Nr = nr\<rparr>"

definition newL2tpV3MessageHeader :: "uint32 \<Rightarrow> uint16 \<Rightarrow> uint16 \<Rightarrow> int \<Rightarrow> l2tpV3Header" where
  "newL2tpV3MessageHeader ccid ns nr payloadBytes =
     \<lparr>v3Common = \<lparr>FlagsVer = 0xc803, Len = word_of_int (int v3HeaderLen + payloadBytes)\<rparr>,
      Ccid = ccid, v3Ns = ns, v3Nr = nr\<rparr>"

text \<open>
  \<open>binary.Read\<close> of a fixed-size struct from a fresh reader over \<open>b\<close>: \<open>io.EOF\<close> when
  nothing can be read, \<open>io.ErrUnexpectedEOF\<close> when the bytes run out part-way.
\<close>

definition readCommonHeader :: "byte list \<Rightarrow> error + l2tpCommonHeader" where
  "readCommonHeader b =
     (if b = [] then Inl ErrEOF
      else if length b < 4 then Inl ErrUnexpectedEOF
      else Inr \<lparr>FlagsVer = be16 (b ! 0) (b ! 1), Len = be16 (b ! 2) (b ! 3)\<rparr>)"

definition readV2Header :: "byte list \<Rightarrow> error + l2tpV2Header" where
  "readV2Header b =
     (if b = [] then Inl ErrEOF
      else if length b < 12 then Inl ErrUnexpectedEOF
      else Inr \<lparr>Common = \<lparr>FlagsVer = be16 (b ! 0) (b ! 1), Len = be16 (b ! 2) (b ! 3)\<rparr>,
                Tid = be16 (b ! 4) (b ! 5), Sid = be16 (b ! 6) (b ! 7),
                Ns = be16 (b ! 8) (b ! 9), Nr = be16 (b ! 10) (b ! 11)\<rparr>)"

definition readV3Header :: "byte list \<Rightarrow> error + l2tpV3Header" where
  "readV3Header b =
     (if b = [] then Inl ErrEOF
      else if length b < 12 then Inl ErrUnexpectedEOF
      else Inr \<lparr>v3Common = \<lparr>FlagsVer = be16 (b ! 0) (b ! 1), Len = be16 (b ! 2) (b ! 3)\<rparr>,
                Ccid = be32 (b ! 4) (b ! 5) (b ! 6) (b ! 7),
                v3Ns = be16 (b ! 8) (b ! 9), v3Nr = be16 (b ! 10) (b ! 11)\<rparr>)"

section \<open>Decoding one message\<close>

text \<open>
  \<open>bytesToV2CtlMsg\<close>. The buffer parser calls it on a slice as long as the header's
  length field says, so \<open>b[v2HeaderLen:hdr.Common.Len]\<close> stays inside it. For any other
  \<open>b\<close> the model takes the capacity of the slice to be its length: the slice expression
  panics beyond it. \<open>avps[0]\<close> panics on an empty AVP list.
\<close>

definition bytesToV2CtlMsg :: "('a, 'rc) avpOps \<Rightarrow> byte list \<Rightarrow> error + 'a v2ControlMessage" where
  "bytesToV2CtlMsg ops b =
     (case readV2Header b of
        Inl e \<Rightarrow> Inl e
      | Inr hdr \<Rightarrow>
          if unat (Len (Common hdr)) > v2HeaderLen then
            (if unat (Len (Common hdr)) > length b then Inl (Panic SliceBoundsOutOfRange)
             else
               (case parseAVPBuffer ops (subSlice b v2HeaderLen (unat (Len (Common hdr)))) of
                  Inl e \<Rightarrow> Inl (AvpError e)
                | Inr xs \<Rightarrow>
                    (case xs of
                       [] \<Rightarrow> Inl (Panic IndexOutOfRange)
                     | a # _ \<Rightarrow>
                         if avpGetType ops a \<noteq> avpTypeMessage then Inl FirstAvpNotMessageTypeV2
                         else Inr \<lparr>header = hdr, avps = xs\<rparr>)))
          else Inr \<lparr>header = hdr, avps = []\<rparr>)"

text \<open>
  The same function with the capacity of the slice made explicit: \<open>spare\<close> holds the
  octets of the backing array between \<open>len(b)\<close> and \<open>cap(b)\<close>. The header is read from
  the \<open>len(b)\<close> octets of \<open>b\<close>; \<open>b[v2HeaderLen:hdr.Common.Len]\<close> may reach into the
  spare octets and panics only beyond \<open>cap(b)\<close>. With no spare octets this is
  \<open>bytesToV2CtlMsg\<close>, and so it is whenever the length field stays within \<open>len(b)\<close>.
\<close>

definition bytesToV2CtlMsgCap ::
    "('a, 'rc) avpOps \<Rightarrow> byte list \<Rightarrow> byte list \<Rightarrow> error + 'a v2ControlMessage" where
  "bytesToV2CtlMsgCap ops b spare =
     (case readV2Header b of
        Inl e \<Rightarrow> Inl e
      | Inr hdr \<Rightarrow>
          if unat (Len (Common hdr)) > v2HeaderLen then
            (if unat (Len (Common hdr)) > length b + length spare
             then Inl (Panic SliceBoundsOutOfRange)
             else
               (case parseAVPBuffer ops
                       (subSlice (b @ spare) v2HeaderLen (unat (Len (Common hdr)))) of
                  Inl e \<Rightarrow> Inl (AvpError e)
                | Inr xs \<Rightarrow>
                    (case xs of
                       [] \<Rightarrow> Inl (Panic IndexOutOfRange)
                     | a # _ \<Rightarrow>
                         if avpGetType ops a \<noteq> avpTypeMessage then Inl FirstAvpNotMessageTypeV2
                         else Inr \<lparr>header = hdr, avps = xs\<rparr>)))
          else Inr \<lparr>header = hdr, avps = []\<rparr>)"

text \<open>\<open>bytesToV3CtlMsg\<close>: the AVP payload is sliced and parsed whatever the length says.\<close>

definition bytesToV3CtlMsg :: "('a, 'rc) avpOps \<Rightarrow> byte list \<Rightarrow> error + 'a v3ControlMessage" where
  "bytesToV3CtlMsg ops b =
     (case readV3Header b of
        Inl e \<Rightarrow> Inl e
      | Inr hdr \<Rightarrow>
          if unat (Len (v3Common hdr)) < v3HeaderLen \<or> unat (Len (v3Common hdr)) > length b
          then Inl (Panic SliceBoundsOutOfRange)
          else
            (case parseAVPBuffer ops (subSlice b v3HeaderLen (unat (Len (v3Common hdr)))) of
               Inl e \<Rightarrow> Inl (AvpError e)
             | Inr xs \<Rightarrow>
                 (case xs of
                    [] \<Rightarrow> Inl (Panic IndexOutOfRange)
                  | a # _ \<Rightarrow>
                      if avpGetType ops a \<noteq> avpTypeMessage then Inl FirstAvpNotMessageTypeV3
                      else Inr \<lparr>v3header = hdr, v3avps = xs\<rparr>)))"

text \<open>
  The earlier revision (\<open>l2tp/msg.go\<close>): \<open>newL2tpV2ControlMessage\<close> is the same decoder
  under its older name, \<open>newL2tpV3ControlMessage\<close> is a stub.
\<close>

definition newL2tpV2ControlMessage ::
    "('a, 'rc) avpOps \<Rightarrow> byte list \<Rightarrow> error + 'a v2ControlMessage" where
  "newL2tpV2ControlMessage ops b =
     (case readV2Header b of
        Inl e \<Rightarrow> Inl e
      | Inr hdr \<Rightarrow>
          if unat (Len (Common hdr)) > v2HeaderLen then
            (if unat (Len (Common hdr)) > length b then Inl (Panic SliceBoundsOutOfRange)
             else
               (case parseAVPBuffer ops (subSlice b v2HeaderLen (unat (Len (Common hdr)))) of
                  Inl e \<Rightarrow> Inl (AvpError e)
                | Inr xs \<Rightarrow>
                    (case xs of
                       [] \<Rightarrow> Inl (Panic IndexOutOfRange)
                     | a # _ \<Rightarrow>
                         if avpGetType ops a \<noteq> avpTypeMessage then Inl FirstAvpNotMessageTypeV2
                         else Inr \<lparr>header = hdr, avps = xs\<rparr>)))
          else Inr \<lparr>header = hdr, avps = []\<rparr>)"

definition newL2tpV3ControlMessage :: "byte list \<Rightarrow> error + 'a v3ControlMessage" where
  "newL2tpV3ControlMessage b = Inl NotImplemented"

section \<open>The message buffer parser\<close>

text \<open>
  The loop of \<open>parseMessageBuffer\<close> (both revisions have the same body; they differ in the
  two decoders they call). The \<open>bytes.Reader\<close> is the buffer \<open>b\<close> with its read position
  \<open>pos\<close>; \<open>r.Len()\<close> is \<open>length b - pos\<close>, which is 0 once the position is at or past the
  end. \<open>binary.Read\<close> of the common header moves the position on by 4, and the final
  \<open>r.Seek(int64(h.Len), io.SeekCurrent)\<close> moves it on from there.
\<close>

function parseLoop ::
    "(byte list \<Rightarrow> error + 'a v2ControlMessage) \<Rightarrow> (byte list \<Rightarrow> error + 'a v3ControlMessage) \<Rightarrow>
     byte list \<Rightarrow> nat \<Rightarrow> 'a controlMessage list \<Rightarrow> error + 'a controlMessage list" where
  "parseLoop dec2 dec3 b pos messages =
     (if length b - pos < controlMessageMinLen then Inr messages
      else
        (case readCommonHeader (drop pos b) of
           Inl e \<Rightarrow> Inl e
         | Inr h \<Rightarrow>
             if unat (Len h - 4) > length b - (pos + 4)
             then Inl (MalformedHeaderLength (unat (Len h)) (length b - (pos + 4)))
             else
               (case protocolVersion h of
                  Inl e \<Rightarrow> Inl e
                | Inr ver \<Rightarrow>
                    if pos + unat (Len h) > length b then Inl (Panic SliceBoundsOutOfRange)
                    else
                      (case (if ver = ProtocolVersion2
                             then map_sum id V2Message (dec2 (subSlice b pos (pos + unat (Len h))))
                             else if ver = ProtocolVersion3
                             then map_sum id V3Message (dec3 (subSlice b pos (pos + unat (Len h))))
                             else Inl (Panic UnhandledProtocolVersion)) of
                         Inl e \<Rightarrow> Inl e
                       | Inr msg \<Rightarrow>
                           parseLoop dec2 dec3 b (pos + 4 + unat (Len h)) (messages @ [msg])))))"
  by pat_completeness auto
termination
  by (relation "measure (\<lambda>(dec2, dec3, b, pos, messages). length b - pos)")
     (auto simp: controlMessageMinLen_def)

declare parseLoop.simps [simp del]

definition parseMessageBuffer ::
    "('a, 'rc) avpOps \<Rightarrow> byte list \<Rightarrow> error + 'a controlMessage list" where
  "parseMessageBuffer ops b = parseLoop (bytesToV2CtlMsg ops) (bytesToV3CtlMsg ops) b 0 []"

definition ParseMessageBuffer ::
    "('a, 'rc) avpOps \<Rightarrow> byte list \<Rightarrow> error + 'a controlMessage list" where
  "ParseMessageBuffer ops b =
     parseLoop (newL2tpV2ControlMessage ops) newL2tpV3ControlMessage b 0 []"

section \<open>Operations of a v2 control message\<close>

text \<open>
  \<open>getType\<close>: both \<open>panic\<close> calls are results of the model, so that a claim that they
  are never reached is a statement about the value.
\<close>

definition getType :: "('a, 'rc) avpOps \<Rightarrow> 'a v2ControlMessage \<Rightarrow> error + avpMsgType" where
  "getType ops msg =
     (case avps msg of
        [] \<Rightarrow> Inr avpMsgTypeAck
      | a # _ \<Rightarrow>
          if avpGetType ops a \<noteq> avpTypeMessage then Inl (Panic InvalidL2TPv2Message)
          else
            (case decodeMsgType ops a of
               Inl e \<Rightarrow> Inl (Panic (FailedToDecodeMsgType e))
             | Inr mt \<Rightarrow> Inr mt))"

text \<open>\<open>uint16(avp.totalLen())\<close> keeps the low 16 bits of the \<open>int\<close>; \<open>+=\<close> on \<open>uint16\<close> wraps.\<close>

definition appendAvp :: "('a, 'rc) avpOps \<Rightarrow> 'a v2ControlMessage \<Rightarrow> 'a \<Rightarrow> 'a v2ControlMessage" where
  "appendAvp ops msg a =
     msg\<lparr>avps := avps msg @ [a],
         header := (header msg)\<lparr>Common := (Common (header msg))
           \<lparr>Len := Len (Common (header msg)) + word_of_int (totalLen ops a)\<rparr>\<rparr>\<rparr>"

definition appendAvpV3 :: "('a, 'rc) avpOps \<Rightarrow> 'a v3ControlMessage \<Rightarrow> 'a \<Rightarrow> 'a v3ControlMessage" where
  "appendAvpV3 ops msg a =
     msg\<lparr>v3avps := v3avps msg @ [a],
         v3header := (v3header msg)\<lparr>v3Common := (v3Common (v3header msg))
           \<lparr>Len := Len (v3Common (v3header msg)) + word_of_int (totalLen ops a)\<rparr>\<rparr>\<rparr>"

definition setTransportSeqNum :: "'a v2ControlMessage \<Rightarrow> uint16 \<Rightarrow> uint16 \<Rightarrow> 'a v2ControlMessage" where
  "setTransportSeqNum msg ns nr = msg\<lparr>header := (header msg)\<lparr>Ns := ns, Nr := nr\<rparr>\<rparr>"

definition v2HeaderBytes :: "l2tpV2Header \<Rightarrow> byte list" where
  "v2HeaderBytes h =
     putUint16 (FlagsVer (Common h)) @ putUint16 (Len (Common h)) @ putUint16 (Tid h) @
     putUint16 (Sid h) @ putUint16 (Ns h) @ putUint16 (Nr h)"

definition avpBytes :: "('a, 'rc) avpOps \<Rightarrow> 'a \<Rightarrow> byte list" where
  "avpBytes ops a = avpHeaderBytes ops a @ avpPayloadData ops a"

text \<open>
  \<open>toBytes\<close>: \<open>binary.Write\<close> into a \<open>bytes.Buffer\<close> of a fixed-size header or of a byte
  slice does not fail, so the error results of the source are never taken.
\<close>

definition toBytes :: "('a, 'rc) avpOps \<Rightarrow> 'a v2ControlMessage \<Rightarrow> error + byte list" where
  "toBytes ops msg = Inr (v2HeaderBytes (header msg) @ concat (map (avpBytes ops) (avps msg)))"

section \<open>Message specifications and validation\<close>

datatype avpSpec = mustExist | mayExist

text \<open>
  \<open>msgSpec\<close> wraps a Go map; it is kept as the list of its entries in the order the
  source assigns them (the keys are distinct), and read through \<open>map_of\<close>.
\<close>

datatype msgSpec = MsgSpec (specMap: "(avpType \<times> avpSpec) list")

definition hasAvp :: "msgSpec \<Rightarrow> avpType \<Rightarrow> avpSpec option" where
  "hasAvp spec t = map_of (specMap spec) t"

definition must :: "msgSpec \<Rightarrow> avpType list" where
  "must spec = map fst (filter (\<lambda>(at, as). as = mustExist) (specMap spec))"

definition v2SccrqMsgSpec :: msgSpec where
  "v2SccrqMsgSpec = MsgSpec
     [(avpTypeMessage, mustExist), (avpTypeProtocolVersion, mustExist),
      (avpTypeHostName, mustExist), (avpTypeFramingCap, mustExist),
      (avpTypeTunnelID, mustExist),
      (avpTypeBearerCap, mayExist), (avpTypeRxWindowSize, mayExist),
      (avpTypeChallenge, mayExist), (avpTypeTiebreaker, mayExist),
      (avpTypeFirmwareRevision, mayExist), (avpTypeVendorName, mayExist)]"

definition v2SccrpMsgSpec :: msgSpec where
  "v2SccrpMsgSpec = MsgSpec
     [(avpTypeMessage, mustExist), (avpTypeProtocolVersion, mustExist),
      (avpTypeFramingCap, mustExist), (avpTypeHostName, mustExist),
      (avpTypeTunnelID, mustExist),
      (avpTypeBearerCap, mayExist), (avpTypeRxWindowSize, mayExist),
      (avpTypeChallenge, mayExist), (avpTypeChallengeResponse, mayExist),
      (avpTypeTiebreaker, mayExist), (avpTypeFirmwareRevision, mayExist),
      (avpTypeVendorName, mayExist)]"

definition v2ScccnMsgSpec :: msgSpec where
  "v2ScccnMsgSpec = MsgSpec [(avpTypeMessage, mustExist), (avpTypeChallengeResponse, mayExist)]"

definition v2StopccnMsgSpec :: msgSpec where
  "v2StopccnMsgSpec = MsgSpec
     [(avpTypeMessage, mustExist), (avpTypeTunnelID, mustExist), (avpTypeResultCode, mustExist)]"

definition v2HelloMsgSpec :: msgSpec where
  "v2HelloMsgSpec = MsgSpec [(avpTypeMessage, mustExist)]"

fun getV2MsgSpec :: "avpMsgType \<Rightarrow> error + msgSpec" where
  "getV2MsgSpec avpMsgTypeSccrq = Inr v2SccrqMsgSpec"
| "getV2MsgSpec avpMsgTypeSccrp = Inr v2SccrpMsgSpec"
| "getV2MsgSpec avpMsgTypeScccn = Inr v2ScccnMsgSpec"
| "getV2MsgSpec avpMsgTypeStopccn = Inr v2StopccnMsgSpec"
| "getV2MsgSpec avpMsgTypeHello = Inr v2HelloMsgSpec"
| "getV2MsgSpec t = Inl (NoSpecification t)"

text \<open>The first loop of \<open>validate\<close>: every \<open>mustExist\<close> type starts as not seen.\<close>

definition initSeen :: "msgSpec \<Rightarrow> (avpType \<times> bool) list" where
  "initSeen spec = map (\<lambda>at. (at, False)) (must spec)"

text \<open>The second loop: the walk over the AVPs, stopping at the first error.\<close>

fun walkAvps ::
    "('a, 'rc) avpOps \<Rightarrow> msgSpec \<Rightarrow> avpMsgType \<Rightarrow> (avpType \<times> bool) list \<Rightarrow> 'a list \<Rightarrow>
     error + (avpType \<times> bool) list" where
  "walkAvps ops spec mt seen [] = Inr seen"
| "walkAvps ops spec mt seen (a # rest) =
     (case hasAvp spec (avpGetType ops a) of
        None \<Rightarrow> Inl (UnexpectedAvp (avpGetType ops a) mt)
      | Some as \<Rightarrow>
          (case avpDecode ops a of
             Inl e \<Rightarrow> Inl (FailedToDecodeAvp (avpGetType ops a) mt e)
           | Inr _ \<Rightarrow>
               walkAvps ops spec mt
                 (if as = mustExist then AList.update (avpGetType ops a) True seen else seen)
                 rest))"

text \<open>
  The third loop ranges over the map \<open>seen\<close>. Go leaves the order in which \<open>range\<close> visits
  the keys of a map unspecified, and it may differ from one loop to the next. The order
  is a parameter of the model: the keys listed in \<open>order\<close> are visited first, in that
  order, and the remaining keys after them. Every enumeration of the keys is
  \<open>rangeKeys order\<close> for some \<open>order\<close> (itself).
\<close>

definition rangeKeys :: "avpType list \<Rightarrow> (avpType \<times> bool) list \<Rightarrow> avpType list" where
  "rangeKeys order seen =
     filter (\<lambda>k. k \<in> set (map fst seen)) (remdups order) @
     filter (\<lambda>k. k \<notin> set order) (remdups (map fst seen))"

definition validate ::
    "('a, 'rc) avpOps \<Rightarrow> avpType list \<Rightarrow> 'a v2ControlMessage \<Rightarrow> error + unit" where
  "validate ops order msg =
     (case getType ops msg of
        Inl e \<Rightarrow> Inl e
      | Inr mt \<Rightarrow>
          (case getV2MsgSpec mt of
             Inl e \<Rightarrow> Inl e
           | Inr spec \<Rightarrow>
               (case walkAvps ops spec mt (initSeen spec) (avps msg) of
                  Inl e \<Rightarrow> Inl e
                | Inr seen \<Rightarrow>
                    (case find (\<lambda>at. map_of seen at = Some False) (rangeKeys order seen) of
                       Some at \<Rightarrow> Inl (MissingMandatoryAvp at mt)
                     | None \<Rightarrow> Inr ()))))"

text \<open>
  What the walk asks of one AVP: its type is a key of the specification and its value
  decodes.
\<close>

definition listedAndDecodable :: "('a, 'rc) avpOps \<Rightarrow> msgSpec \<Rightarrow> 'a \<Rightarrow> bool" where
  "listedAndDecodable ops spec a \<longleftrightarrow>
     hasAvp spec (avpGetType ops a) \<noteq> None \<and> \<not> isl (avpDecode ops a)"

section \<open>Encoding followed by decoding\<close>

definition roundTrip :: "('a, 'rc) avpOps \<Rightarrow> 'a v2ControlMessage \<Rightarrow> error + 'a v2ControlMessage" where
  "roundTrip ops msg =
     (case toBytes ops msg of
        Inl e \<Rightarrow> Inl e
      | Inr bs \<Rightarrow> bytesToV2CtlMsg ops bs)"

text \<open>
  Modelled from the spec: what the message layer is promised by the AVP subsystem, whose
  code is not among the sources (spec, section 6), on the AVPs \<open>xs\<close>: the total length
  of each is the number of octets of its header and payload, which is not zero, and
  \<open>parseAVPBuffer\<close> gives \<open>xs\<close> back from their encoding.
\<close>

definition avpCodecRoundTrips :: "('a, 'rc) avpOps \<Rightarrow> 'a list \<Rightarrow> bool" where
  "avpCodecRoundTrips ops xs \<longleftrightarrow>
     list_all (\<lambda>a. avpBytes ops a \<noteq> [] \<and> totalLen ops a = int (length (avpBytes ops a))) xs \<and>
     parseAVPBuffer ops (concat (map (avpBytes ops) xs)) = Inr xs"

section \<open>Message builders\<close>

text \<open>
  Modelled from the spec: \<open>ControlConnID\<close>, \<open>v2TidSidMax\<close> and \<open>TunnelConfig\<close> are declared
  outside the sources. The source converts a \<open>ControlConnID\<close> with \<open>uint16(...)\<close> and
  \<open>uint32(...)\<close>, so it is a 32-bit unsigned value here; the bound is the top of the
  16-bit range (spec, section 3: 0 to 65535); of the configuration the builders read the
  local and the peer tunnel id.
\<close>

type_synonym ControlConnID = uint32

definition v2TidSidMax :: ControlConnID where
  "v2TidSidMax = 0xffff"

record TunnelConfig =
  TunnelID :: ControlConnID
  PeerTunnelID :: ControlConnID

definition newV2ControlMessage ::
    "('a, 'rc) avpOps \<Rightarrow> ControlConnID \<Rightarrow> ControlConnID \<Rightarrow> 'a list \<Rightarrow> error + 'a v2ControlMessage" where
  "newV2ControlMessage ops tid sid xs =
     (if tid > v2TidSidMax then Inl (TunnelIdOutOfRange tid)
      else if sid > v2TidSidMax then Inl (SessionIdOutOfRange sid)
      else Inr \<lparr>header = newL2tpV2MessageHeader (ucast tid) (ucast sid) 0 0 (avpsLengthBytes ops xs),
                avps = xs\<rparr>)"

fun appendAvpIns ::
    "('a, 'rc) avpOps \<Rightarrow> 'a v2ControlMessage \<Rightarrow> (avpType \<times> 'rc avpData) list \<Rightarrow>
     error + 'a v2ControlMessage" where
  "appendAvpIns ops msg [] = Inr msg"
| "appendAvpIns ops msg ((typ, dat) # rest) =
     (case newAvp ops (vendorIDIetf ops) typ dat of
        Inl e \<Rightarrow> Inl (FailedToCreateAvp typ e)
      | Inr a \<Rightarrow> appendAvpIns ops (appendAvp ops msg a) rest)"

definition buildV2TunnelMsg ::
    "('a, 'rc) avpOps \<Rightarrow> ControlConnID \<Rightarrow> (avpType \<times> 'rc avpData) list \<Rightarrow>
     error + 'a v2ControlMessage" where
  "buildV2TunnelMsg ops ptid ins =
     (case newV2ControlMessage ops ptid 0 [] of
        Inl e \<Rightarrow> Inl e
      | Inr msg \<Rightarrow> appendAvpIns ops msg ins)"

definition newV2Sccrq :: "('a, 'rc) avpOps \<Rightarrow> TunnelConfig \<Rightarrow> error + 'a v2ControlMessage" where
  "newV2Sccrq ops cfg =
     buildV2TunnelMsg ops 0
       [(avpTypeMessage, DataMsgType avpMsgTypeSccrq),
        (avpTypeProtocolVersion, DataBytes [1, 0]),
        (avpTypeHostName, DataString ''rincewind''),
        (avpTypeFramingCap, DataUint32 0x3),
        (avpTypeTunnelID, DataUint16 (ucast (TunnelID cfg)))]"

definition newV2Sccrp :: "('a, 'rc) avpOps \<Rightarrow> TunnelConfig \<Rightarrow> error + 'a v2ControlMessage" where
  "newV2Sccrp ops cfg =
     buildV2TunnelMsg ops (PeerTunnelID cfg)
       [(avpTypeMessage, DataMsgType avpMsgTypeSccrp),
        (avpTypeProtocolVersion, DataBytes [1, 0]),
        (avpTypeFramingCap, DataUint32 0x3),
        (avpTypeHostName, DataString ''rincewind''),
        (avpTypeTunnelID, DataUint16 (ucast (TunnelID cfg)))]"

definition newV2Scccn :: "('a, 'rc) avpOps \<Rightarrow> TunnelConfig \<Rightarrow> error + 'a v2ControlMessage" where
  "newV2Scccn ops cfg =
     buildV2TunnelMsg ops (PeerTunnelID cfg) [(avpTypeMessage, DataMsgType avpMsgTypeScccn)]"

definition newV2Stopccn ::
    "('a, 'rc) avpOps \<Rightarrow> 'rc \<Rightarrow> TunnelConfig \<Rightarrow> error + 'a v2ControlMessage" where
  "newV2Stopccn ops rc cfg =
     buildV2TunnelMsg ops (PeerTunnelID cfg)
       [(avpTypeMessage, DataMsgType avpMsgTypeStopccn),
        (avpTypeTunnelID, DataUint16 (ucast (TunnelID cfg))),
        (avpTypeResultCode, DataResultCode rc)]"

definition newV2Hello :: "('a, 'rc) avpOps \<Rightarrow> TunnelConfig \<Rightarrow> error + 'a v2ControlMessage" where
  "newV2Hello ops cfg =
     buildV2TunnelMsg ops (PeerTunnelID cfg) [(avpTypeMessage, DataMsgType avpMsgTypeHello)]"

section \<open>An instance of the AVP subsystem\<close>

text \<open>
  Modelled from the spec: the AVP codec (\<open>parseAVPBuffer\<close>, \<open>avp.getType\<close>, \<open>avp.decode\<close>,
  \<open>avp.decodeMsgType\<close>, \<open>avp.totalLen\<close>, \<open>newAvp\<close>, \<open>avpsLengthBytes\<close>) is not among the
  sources. The spec (sections 3 and 6) gives its interface: an AVP has a vendor id, a type
  tag and a raw payload; it is encoded as a header followed by the payload; its total
  length counts both; \<open>parseAvpBuffer\<close> gives the AVPs of a byte slice in order, or fails;
  a message type is a 2-octet enumerant, and decoding it can fail. The codec below has
  this interface, with a 6-octet big-endian header (flags and 10-bit total length, vendor
  id, type tag): the parser splits the slice by the length fields and checks nothing
  else, and \<open>decodeMsgType\<close> reads a payload of exactly 2 octets. The theorems of this
  theory hold for every AVP subsystem; this one runs them on concrete buffers.
\<close>

record wireAvp =
  wireFlagLen :: uint16
  wireVendorID :: uint16
  wireAvpType :: uint16
  wireData :: "byte list"

definition avpTypeOfCode :: "uint16 \<Rightarrow> avpType" where
  "avpTypeOfCode c =
     (if c = 0 then avpTypeMessage
      else if c = 1 then avpTypeResultCode
      else if c = 2 then avpTypeProtocolVersion
      else if c = 3 then avpTypeFramingCap
      else if c = 4 then avpTypeBearerCap
      else if c = 5 then avpTypeTiebreaker
      else if c = 6 then avpTypeFirmwareRevision
      else if c = 7 then avpTypeHostName
      else if c = 8 then avpTypeVendorName
      else if c = 9 then avpTypeTunnelID
      else if c = 10 then avpTypeRxWindowSize
      else if c = 11 then avpTypeChallenge
      else if c = 13 then avpTypeChallengeResponse
      else avpTypeOther (unat c))"

fun codeOfAvpType :: "avpType \<Rightarrow> uint16" where
  "codeOfAvpType avpTypeMessage = 0"
| "codeOfAvpType avpTypeResultCode = 1"
| "codeOfAvpType avpTypeProtocolVersion = 2"
| "codeOfAvpType avpTypeFramingCap = 3"
| "codeOfAvpType avpTypeBearerCap = 4"
| "codeOfAvpType avpTypeTiebreaker = 5"
| "codeOfAvpType avpTypeFirmwareRevision = 6"
| "codeOfAvpType avpTypeHostName = 7"
| "codeOfAvpType avpTypeVendorName = 8"
| "codeOfAvpType avpTypeTunnelID = 9"
| "codeOfAvpType avpTypeRxWindowSize = 10"
| "codeOfAvpType avpTypeChallenge = 11"
| "codeOfAvpType avpTypeChallengeResponse = 13"
| "codeOfAvpType (avpTypeOther n) = of_nat n"

definition msgTypeOfCode :: "uint16 \<Rightarrow> avpMsgType" where
  "msgTypeOfCode c =
     (if c = 1 then avpMsgTypeSccrq
      else if c = 2 then avpMsgTypeSccrp
      else if c = 3 then avpMsgTypeScccn
      else if c = 4 then avpMsgTypeStopccn
      else if c = 6 then avpMsgTypeHello
      else if c = 20 then avpMsgTypeAck
      else avpMsgTypeOther (unat c))"

fun codeOfMsgType :: "avpMsgType \<Rightarrow> uint16" where
  "codeOfMsgType avpMsgTypeSccrq = 1"
| "codeOfMsgType avpMsgTypeSccrp = 2"
| "codeOfMsgType avpMsgTypeScccn = 3"
| "codeOfMsgType avpMsgTypeStopccn = 4"
| "codeOfMsgType avpMsgTypeHello = 6"
| "codeOfMsgType avpMsgTypeAck = 20"
| "codeOfMsgType (avpMsgTypeOther n) = of_nat n"

definition wireAvpLenAt :: "byte list \<Rightarrow> nat" where
  "wireAvpLenAt b = unat (be16 (b ! 0) (b ! 1) AND 0x3ff)"

function wireParseAVPBuffer :: "byte list \<Rightarrow> string + wireAvp list" where
  "wireParseAVPBuffer b =
     (if length b < 6 then Inr []
      else if wireAvpLenAt b < 6 \<or> length b < wireAvpLenAt b then Inl ''malformed AVP''
      else
        (case wireParseAVPBuffer (drop (wireAvpLenAt b) b) of
           Inl e \<Rightarrow> Inl e
         | Inr rest \<Rightarrow>
             Inr (\<lparr>wireFlagLen = be16 (b ! 0) (b ! 1), wireVendorID = be16 (b ! 2) (b ! 3),
                   wireAvpType = be16 (b ! 4) (b ! 5),
                   wireData = subSlice b 6 (wireAvpLenAt b)\<rparr> # rest)))"
  by pat_completeness auto
termination
  by (relation "measure length") auto

declare wireParseAVPBuffer.simps [simp del]

definition wireGetType :: "wireAvp \<Rightarrow> avpType" where
  "wireGetType a = avpTypeOfCode (wireAvpType a)"

definition wireDecodeMsgType :: "wireAvp \<Rightarrow> string + avpMsgType" where
  "wireDecodeMsgType a =
     (if wireGetType a \<noteq> avpTypeMessage then Inl ''not a message type AVP''
      else if length (wireData a) \<noteq> 2 then Inl ''unexpected EOF''
      else Inr (msgTypeOfCode (be16 (wireData a ! 0) (wireData a ! 1))))"

definition wireDecode :: "wireAvp \<Rightarrow> string + uint16 avpData" where
  "wireDecode a =
     (let d = wireData a; t = wireGetType a in
      if t = avpTypeMessage then map_sum id DataMsgType (wireDecodeMsgType a)
      else if t = avpTypeTunnelID \<or> t = avpTypeRxWindowSize \<or> t = avpTypeFirmwareRevision then
        (if length d = 2 then Inr (DataUint16 (be16 (d ! 0) (d ! 1))) else Inl ''expected 2 octets'')
      else if t = avpTypeFramingCap \<or> t = avpTypeBearerCap then
        (if length d = 4 then Inr (DataUint32 (be32 (d ! 0) (d ! 1) (d ! 2) (d ! 3)))
         else Inl ''expected 4 octets'')
      else if t = avpTypeResultCode then
        (if length d \<ge> 2 then Inr (DataResultCode (be16 (d ! 0) (d ! 1)))
         else Inl ''result code too short'')
      else if t = avpTypeHostName \<or> t = avpTypeVendorName then
        Inr (DataString (map (\<lambda>x. char_of (unat x)) d))
      else Inr (DataBytes d))"

definition wireTotalLen :: "wireAvp \<Rightarrow> int" where
  "wireTotalLen a = 6 + int (length (wireData a))"

definition wireHeaderBytes :: "wireAvp \<Rightarrow> byte list" where
  "wireHeaderBytes a =
     putUint16 (wireFlagLen a) @ putUint16 (wireVendorID a) @ putUint16 (wireAvpType a)"

fun wirePayload :: "uint16 avpData \<Rightarrow> byte list" where
  "wirePayload (DataMsgType t) = putUint16 (codeOfMsgType t)"
| "wirePayload (DataBytes bs) = bs"
| "wirePayload (DataString s) = map of_char s"
| "wirePayload (DataUint16 w) = putUint16 w"
| "wirePayload (DataUint32 w) = putUint32 w"
| "wirePayload (DataResultCode rc) = putUint16 rc"

definition wireNewAvp :: "uint16 \<Rightarrow> avpType \<Rightarrow> uint16 avpData \<Rightarrow> string + wireAvp" where
  "wireNewAvp vendor typ dat =
     (if 6 + length (wirePayload dat) > 1023 then Inl ''AVP payload too long''
      else Inr \<lparr>wireFlagLen = 0x8000 OR of_nat (6 + length (wirePayload dat)),
                wireVendorID = vendor, wireAvpType = codeOfAvpType typ,
                wireData = wirePayload dat\<rparr>)"

definition wireOps :: "(wireAvp, uint16) avpOps" where
  "wireOps =
     \<lparr>parseAVPBuffer = wireParseAVPBuffer, avpGetType = wireGetType, avpDecode = wireDecode,
      decodeMsgType = wireDecodeMsgType, totalLen = wireTotalLen,
      avpHeaderBytes = wireHeaderBytes, avpPayloadData = wireData, vendorIDIetf = 0,
      newAvp = wireNewAvp, avpsLengthBytes = (\<lambda>xs. sum_list (map wireTotalLen xs))\<rparr>"

subsection \<open>Concrete buffers and messages\<close>

definition helloBytes :: "byte list" where
  "helloBytes =
     [0xc8, 0x02, 0x00, 0x14, 0x00, 0x01, 0x00, 0x00, 0x00, 0x00, 0x00, 0x00,
      0x80, 0x08, 0x00, 0x00, 0x00, 0x00, 0x00, 0x06]"

definition zlbBytes :: "byte list" where
  "zlbBytes = [0xc8, 0x02, 0x00, 0x0c, 0x00, 0x01, 0x00, 0x00, 0x00, 0x01, 0x00, 0x00]"

definition helloZlbBuffer :: "byte list" where
  "helloZlbBuffer = helloBytes @ zlbBytes"

definition msgTypeAvp :: "avpMsgType \<Rightarrow> wireAvp" where
  "msgTypeAvp t =
     \<lparr>wireFlagLen = 0x8008, wireVendorID = 0, wireAvpType = 0, wireData = putUint16 (codeOfMsgType t)\<rparr>"

definition helloMsg :: "wireAvp v2ControlMessage" where
  "helloMsg =
     \<lparr>header = \<lparr>Common = \<lparr>FlagsVer = 0xc802, Len = 20\<rparr>, Tid = 1, Sid = 0, Ns = 0, Nr = 0\<rparr>,
      avps = [msgTypeAvp avpMsgTypeHello]\<rparr>"

definition badVersionBuffer :: "byte list" where
  "badVersionBuffer = [0xc8, 0x01, 0x00, 0x0c, 0x00, 0x01, 0x00, 0x00, 0x00, 0x00, 0x00, 0x00]"

definition badVersionBadLengthBuffer :: "byte list" where
  "badVersionBadLengthBuffer =
     [0xc8, 0x01, 0x00, 0x10, 0x00, 0x01, 0x00, 0x00, 0x00, 0x00, 0x00, 0x00]"

definition v3HelloBytes :: "byte list" where
  "v3HelloBytes =
     [0xc8, 0x03, 0x00, 0x14, 0x00, 0x00, 0x00, 0x01, 0x00, 0x00, 0x00, 0x00,
      0x80, 0x08, 0x00, 0x00, 0x00, 0x00, 0x00, 0x06]"

definition v3HelloMsg :: "wireAvp v3ControlMessage" where
  "v3HelloMsg =
     \<lparr>v3header = \<lparr>v3Common = \<lparr>FlagsVer = 0xc803, Len = 20\<rparr>, Ccid = 1, v3Ns = 0, v3Nr = 0\<rparr>,
      v3avps = [msgTypeAvp avpMsgTypeHello]\<rparr>"

definition zlbMsg :: "wireAvp v2ControlMessage" where
  "zlbMsg =
     \<lparr>header = \<lparr>Common = \<lparr>FlagsVer = 0xc802, Len = 12\<rparr>, Tid = 1, Sid = 0, Ns = 1, Nr = 0\<rparr>,
      avps = []\<rparr>"

definition nearlyFullMsg :: "wireAvp v2ControlMessage" where
  "nearlyFullMsg =
     \<lparr>header = \<lparr>Common = \<lparr>FlagsVer = 0xc802, Len = 0xfffc\<rparr>, Tid = 1, Sid = 0, Ns = 0, Nr = 0\<rparr>,
      avps = []\<rparr>"

definition localIdTooBigConfig :: TunnelConfig where
  "localIdTooBigConfig = \<lparr>TunnelID = 70000, PeerTunnelID = 1\<rparr>"

definition peerIdTooBigConfig :: TunnelConfig where
  "peerIdTooBigConfig = \<lparr>TunnelID = 1, PeerTunnelID = 70000\<rparr>"

definition mkWireAvp :: "avpType \<Rightarrow> uint16 avpData \<Rightarrow> wireAvp" where
  "mkWireAvp typ dat =
     \<lparr>wireFlagLen = 0x8000 OR of_nat (6 + length (wirePayload dat)), wireVendorID = 0,
      wireAvpType = codeOfAvpType typ, wireData = wirePayload dat\<rparr>"

definition sccrqMsg :: "wireAvp v2ControlMessage" where
  "sccrqMsg =
     \<lparr>header = \<lparr>Common = \<lparr>FlagsVer = 0xc802, Len = 61\<rparr>, Tid = 0, Sid = 0, Ns = 0, Nr = 0\<rparr>,
      avps = [mkWireAvp avpTypeMessage (DataMsgType avpMsgTypeSccrq),
              mkWireAvp avpTypeProtocolVersion (DataBytes [1, 0]),
              mkWireAvp avpTypeHostName (DataString ''rincewind''),
              mkWireAvp avpTypeFramingCap (DataUint32 3),
              mkWireAvp avpTypeTunnelID (DataUint16 42)]\<rparr>"

definition sccrqNoTunnelIdMsg :: "wireAvp v2ControlMessage" where
  "sccrqNoTunnelIdMsg =
     \<lparr>header = \<lparr>Common = \<lparr>FlagsVer = 0xc802, Len = 53\<rparr>, Tid = 0, Sid = 0, Ns = 0, Nr = 0\<rparr>,
      avps = [mkWireAvp avpTypeMessage (DataMsgType avpMsgTypeSccrq),
              mkWireAvp avpTypeProtocolVersion (DataBytes [1, 0]),
              mkWireAvp avpTypeHostName (DataString ''rincewind''),
              mkWireAvp avpTypeFramingCap (DataUint32 3)]\<rparr>"

definition sccrqOnlyTypeMsg :: "wireAvp v2ControlMessage" where
  "sccrqOnlyTypeMsg =
     \<lparr>header = \<lparr>Common = \<lparr>FlagsVer = 0xc802, Len = 20\<rparr>, Tid = 0, Sid = 0, Ns = 0, Nr = 0\<rparr>,
      avps = [mkWireAvp avpTypeMessage (DataMsgType avpMsgTypeSccrq)]\<rparr>"

definition hostNameOnlyMsg :: "wireAvp v2ControlMessage" where
  "hostNameOnlyMsg =
     \<lparr>header = \<lparr>Common = \<lparr>FlagsVer = 0xc802, Len = 27\<rparr>, Tid = 0, Sid = 0, Ns = 0, Nr = 0\<rparr>,
      avps = [mkWireAvp avpTypeHostName (DataString ''rincewind'')]\<rparr>"

definition helloWithHostNameMsg :: "wireAvp v2ControlMessage" where
  "helloWithHostNameMsg =
     \<lparr>header = \<lparr>Common = \<lparr>FlagsVer = 0xc802, Len = 35\<rparr>, Tid = 1, Sid = 0, Ns = 0, Nr = 0\<rparr>,
      avps = [mkWireAvp avpTypeMessage (DataMsgType avpMsgTypeHello),
              mkWireAvp avpTypeHostName (DataString ''rincewind'')]\<rparr>"

definition sccrqBadTunnelIdMsg :: "wireAvp v2ControlMessage" where
  "sccrqBadTunnelIdMsg =
     \<lparr>header = \<lparr>Common = \<lparr>FlagsVer = 0xc802, Len = 27\<rparr>, Tid = 0, Sid = 0, Ns = 0, Nr = 0\<rparr>,
      avps = [mkWireAvp avpTypeMessage (DataMsgType avpMsgTypeSccrq),
              mkWireAvp avpTypeTunnelID (DataBytes [42])]\<rparr>"



section \<open>The buffer parser, one iteration at a time\<close>

lemma readCommonHeader_append:
  "4 \<le> length m1 \<Longrightarrow> readCommonHeader (m1 @ m2) = readCommonHeader m1"
  by (auto simp: readCommonHeader_def nth_append)

lemma parseLoop_done:
  "length b - pos < 12 \<Longrightarrow> parseLoop dec2 dec3 b pos messages = Inr messages"
  by (subst parseLoop.simps) (simp add: controlMessageMinLen_def)

lemma parseLoop_malformed:
  assumes "12 \<le> length b - pos" and "readCommonHeader (drop pos b) = Inr h"
    and "unat (Len h - 4) > length b - (pos + 4)"
  shows "parseLoop dec2 dec3 b pos messages =
           Inl (MalformedHeaderLength (unat (Len h)) (length b - (pos + 4)))"
  using assms by (subst parseLoop.simps) (simp add: controlMessageMinLen_def)

lemma parseLoop_illegal:
  assumes "12 \<le> length b - pos" and "readCommonHeader (drop pos b) = Inr h"
    and "\<not> unat (Len h - 4) > length b - (pos + 4)"
    and "protocolVersion h = Inl e"
  shows "parseLoop dec2 dec3 b pos messages = Inl e"
  using assms by (subst parseLoop.simps) (simp add: controlMessageMinLen_def)

lemma parseLoop_v2:
  assumes "12 \<le> length b - pos" and "readCommonHeader (drop pos b) = Inr h"
    and "\<not> unat (Len h - 4) > length b - (pos + 4)"
    and "protocolVersion h = Inr ProtocolVersion2"
    and "pos + unat (Len h) \<le> length b"
  shows "parseLoop dec2 dec3 b pos messages =
           (case dec2 (subSlice b pos (pos + unat (Len h))) of
              Inl e \<Rightarrow> Inl e
            | Inr msg \<Rightarrow>
                parseLoop dec2 dec3 b (pos + 4 + unat (Len h)) (messages @ [V2Message msg]))"
  using assms
  by (subst parseLoop.simps) (simp add: controlMessageMinLen_def split: sum.splits)

text \<open>
  A framed v2 message \<open>m1\<close> (its length field counts all of \<open>m1\<close>) directly followed by a
  12-octet frame \<open>m2\<close>: whatever the AVP subsystem, the parser decodes \<open>m1\<close> and stops.
  After \<open>m1\<close> the read position is \<open>4 + length m1\<close>, which leaves 8 octets, fewer than
  \<open>controlMessageMinLen\<close>; \<open>m2\<close> is never looked at.
\<close>

lemma parse_back_to_back:
  assumes l1: "12 \<le> length m1" and l2: "length m2 = 12"
    and hdr: "readCommonHeader m1 = Inr h"
    and hl: "unat (Len h) = length m1"
    and ver: "protocolVersion h = Inr ProtocolVersion2"
  shows "parseMessageBuffer ops (m1 @ m2) =
           map_sum id (\<lambda>msg. [V2Message msg]) (bytesToV2CtlMsg ops m1)"
proof -
  have h': "readCommonHeader (drop 0 (m1 @ m2)) = Inr h"
    using l1 hdr by (simp add: readCommonHeader_append)
  have "(4::16 word) \<le> Len h" using hl l1 by (simp add: word_le_nat_alt)
  then have sub: "unat (Len h - 4) = length m1 - 4"
    using hl by (simp add: unat_sub)
  have fin: "\<And>msg. parseLoop (bytesToV2CtlMsg ops) (bytesToV3CtlMsg ops) (m1 @ m2)
             (0 + 4 + unat (Len h)) ([] @ [msg]) = Inr [msg]"
    by (subst parseLoop_done) (simp_all add: l2 hl)
  have sl: "subSlice (m1 @ m2) 0 (0 + unat (Len h)) = m1"
    by (simp add: subSlice_def hl)
  have "parseLoop (bytesToV2CtlMsg ops) (bytesToV3CtlMsg ops) (m1 @ m2) 0 [] =
        (case bytesToV2CtlMsg ops (subSlice (m1 @ m2) 0 (0 + unat (Len h))) of
           Inl e \<Rightarrow> Inl e
         | Inr msg \<Rightarrow> parseLoop (bytesToV2CtlMsg ops) (bytesToV3CtlMsg ops) (m1 @ m2)
                        (0 + 4 + unat (Len h)) ([] @ [V2Message msg]))"
    using l1 l2 by (intro parseLoop_v2 [OF _ h' _ ver]) (simp_all add: sub hl)
  also have "\<dots> = map_sum id (\<lambda>msg. [V2Message msg]) (bytesToV2CtlMsg ops m1)"
    unfolding sl fin by (cases "bytesToV2CtlMsg ops m1") simp_all
  finally show ?thesis
    by (simp add: parseMessageBuffer_def)
qed

section \<open>Validation: the walk and the final check\<close>

text \<open>The order parameter reaches every enumeration of the keys of \<open>seen\<close>.\<close>

lemma rangeKeys_enumeration:
  "distinct ks \<Longrightarrow> set ks = fst ` set seen \<Longrightarrow> rangeKeys ks seen = ks"
  by (simp add: rangeKeys_def)

lemma set_rangeKeys: "set (rangeKeys order seen) = fst ` set seen"
  by (auto simp: rangeKeys_def)

lemma find_unseen_None:
  "find (\<lambda>at. map_of seen at = Some False) (rangeKeys order seen) = None \<longleftrightarrow>
     (\<forall>k. map_of seen k \<noteq> Some False)"
proof
  assume n: "find (\<lambda>at. map_of seen at = Some False) (rangeKeys order seen) = None"
  show "\<forall>k. map_of seen k \<noteq> Some False"
  proof
    fix k
    show "map_of seen k \<noteq> Some False"
    proof
      assume f: "map_of seen k = Some False"
      then have "k \<in> fst ` set seen" by (auto dest: map_of_SomeD intro: rev_image_eqI)
      with n f show False by (auto simp: find_None_iff set_rangeKeys)
    qed
  qed
next
  assume "\<forall>k. map_of seen k \<noteq> Some False"
  then show "find (\<lambda>at. map_of seen at = Some False) (rangeKeys order seen) = None"
    by (simp add: find_None_iff)
qed

lemma find_unseen_Some:
  "find (\<lambda>at. map_of seen at = Some False) (rangeKeys order seen) = Some at \<Longrightarrow>
     map_of seen at = Some False"
  by (auto simp: find_Some_iff)

lemma walkAvps_accepted:
  "\<forall>a\<in>set xs. listedAndDecodable ops spec a \<Longrightarrow>
   \<exists>seen'. walkAvps ops spec mt seen xs = Inr seen' \<and>
     (\<forall>k. map_of seen' k =
        (if k \<in> avpGetType ops ` set xs \<and> hasAvp spec k = Some mustExist then Some True
         else map_of seen k))"
proof (induction xs arbitrary: seen)
  case Nil
  then show ?case by simp
next
  case (Cons a xs)
  from Cons.prems obtain as v where
    h: "hasAvp spec (avpGetType ops a) = Some as" and d: "avpDecode ops a = Inr v"
    by (cases "avpDecode ops a") (auto simp: listedAndDecodable_def)
  let ?seen1 = "if as = mustExist then AList.update (avpGetType ops a) True seen else seen"
  from Cons.prems have "\<forall>a\<in>set xs. listedAndDecodable ops spec a" by simp
  from Cons.IH [OF this, of ?seen1] obtain seen' where
    w: "walkAvps ops spec mt ?seen1 xs = Inr seen'" and
    m: "\<And>k. map_of seen' k =
        (if k \<in> avpGetType ops ` set xs \<and> hasAvp spec k = Some mustExist then Some True
         else map_of ?seen1 k)"
    by blast
  have "walkAvps ops spec mt seen (a # xs) = Inr seen'"
    using h d w by simp
  moreover have "\<forall>k. map_of seen' k =
        (if k \<in> avpGetType ops ` set (a # xs) \<and> hasAvp spec k = Some mustExist then Some True
         else map_of seen k)"
    using h by (auto simp: m update_conv')
  ultimately show ?case by blast
qed

lemma walkAvps_Inr_accepted:
  "walkAvps ops spec mt seen xs = Inr seen' \<Longrightarrow> \<forall>a\<in>set xs. listedAndDecodable ops spec a"
  by (induction xs arbitrary: seen)
     (auto simp: listedAndDecodable_def split: option.splits sum.splits)

lemma walkAvps_first_unlisted:
  "\<forall>x\<in>set pre. listedAndDecodable ops spec x \<Longrightarrow> hasAvp spec (avpGetType ops a) = None \<Longrightarrow>
   walkAvps ops spec mt seen (pre @ a # post) = Inl (UnexpectedAvp (avpGetType ops a) mt)"
  by (induction pre arbitrary: seen)
     (auto simp: listedAndDecodable_def split: option.splits sum.splits)

lemma walkAvps_first_undecodable:
  "\<forall>x\<in>set pre. listedAndDecodable ops spec x \<Longrightarrow> hasAvp spec (avpGetType ops a) \<noteq> None \<Longrightarrow>
   avpDecode ops a = Inl e \<Longrightarrow>
   walkAvps ops spec mt seen (pre @ a # post) = Inl (FailedToDecodeAvp (avpGetType ops a) mt e)"
  by (induction pre arbitrary: seen)
     (auto simp: listedAndDecodable_def split: option.splits sum.splits)

lemma map_of_const_False:
  "map_of (map (\<lambda>at. (at, False)) ks) k = (if k \<in> set ks then Some False else None)"
  by (induction ks) auto

lemma map_of_initSeen:
  assumes "distinct (map fst (specMap spec))"
  shows "map_of (initSeen spec) k = (if hasAvp spec k = Some mustExist then Some False else None)"
proof -
  have "k \<in> set (must spec) \<longleftrightarrow> (k, mustExist) \<in> set (specMap spec)"
    by (auto simp: must_def intro: rev_image_eqI)
  also have "\<dots> \<longleftrightarrow> hasAvp spec k = Some mustExist"
    using assms by (simp add: hasAvp_def)
  finally show ?thesis by (simp add: initSeen_def map_of_const_False)
qed

lemma getV2MsgSpec_distinct:
  "getV2MsgSpec mt = Inr spec \<Longrightarrow> distinct (map fst (specMap spec))"
  by (cases mt)
     (auto simp: v2SccrqMsgSpec_def v2SccrpMsgSpec_def v2ScccnMsgSpec_def v2StopccnMsgSpec_def
        v2HelloMsgSpec_def)


lemma validate_unfold:
  assumes gt: "getType ops msg = Inr mt" and sp: "getV2MsgSpec mt = Inr spec"
  shows "validate ops order msg =
     (case walkAvps ops spec mt (initSeen spec) (avps msg) of
        Inl e \<Rightarrow> Inl e
      | Inr seen \<Rightarrow>
          (case find (\<lambda>at. map_of seen at = Some False) (rangeKeys order seen) of
             Some at \<Rightarrow> Inl (MissingMandatoryAvp at mt)
           | None \<Rightarrow> Inr ()))"
  by (simp add: validate_def gt sp)

lemma validate_not_Inr:
  "validate ops order msg = Inr u \<Longrightarrow>
     \<exists>mt spec. getType ops msg = Inr mt \<and> getV2MsgSpec mt = Inr spec"
  by (auto simp: validate_def split: sum.splits)

text \<open>When the walk accepts every AVP, the outcome is decided by the unseen mandatory types.\<close>

lemma validate_after_walk:
  assumes gt: "getType ops msg = Inr mt" and sp: "getV2MsgSpec mt = Inr spec"
    and acc: "\<forall>a\<in>set (avps msg). listedAndDecodable ops spec a"
  shows "(validate ops order msg = Inr () \<and>
            (\<forall>at. hasAvp spec at = Some mustExist \<longrightarrow> at \<in> avpGetType ops ` set (avps msg))) \<or>
         (\<exists>at. validate ops order msg = Inl (MissingMandatoryAvp at mt) \<and>
            hasAvp spec at = Some mustExist \<and> at \<notin> avpGetType ops ` set (avps msg))"
proof -
  from walkAvps_accepted [OF acc, of mt "initSeen spec"] obtain seen where
    w: "walkAvps ops spec mt (initSeen spec) (avps msg) = Inr seen" and
    m: "\<And>k. map_of seen k =
        (if k \<in> avpGetType ops ` set (avps msg) \<and> hasAvp spec k = Some mustExist then Some True
         else map_of (initSeen spec) k)"
    by blast
  have unseen: "map_of seen k = Some False \<longleftrightarrow>
      hasAvp spec k = Some mustExist \<and> k \<notin> avpGetType ops ` set (avps msg)" for k
    by (simp add: m map_of_initSeen [OF getV2MsgSpec_distinct [OF sp]])
  show ?thesis
  proof (cases "find (\<lambda>at. map_of seen at = Some False) (rangeKeys order seen)")
    case None
    then have "\<forall>k. map_of seen k \<noteq> Some False" by (simp add: find_unseen_None)
    then have "\<forall>at. hasAvp spec at = Some mustExist \<longrightarrow> at \<in> avpGetType ops ` set (avps msg)"
      using unseen by blast
    moreover have "validate ops order msg = Inr ()"
      by (simp add: validate_unfold [OF gt sp] w None)
    ultimately show ?thesis by blast
  next
    case (Some at)
    then have "map_of seen at = Some False" by (rule find_unseen_Some)
    then have "hasAvp spec at = Some mustExist \<and> at \<notin> avpGetType ops ` set (avps msg)"
      using unseen by blast
    moreover have "validate ops order msg = Inl (MissingMandatoryAvp at mt)"
      by (simp add: validate_unfold [OF gt sp] w Some)
    ultimately show ?thesis by blast
  qed
qed

lemma validate_ok_iff:
  "validate ops order msg = Inr () \<longleftrightarrow>
     (\<exists>mt spec. getType ops msg = Inr mt \<and> getV2MsgSpec mt = Inr spec \<and>
        (\<forall>a\<in>set (avps msg). listedAndDecodable ops spec a) \<and>
        (\<forall>at. hasAvp spec at = Some mustExist \<longrightarrow> at \<in> avpGetType ops ` set (avps msg)))"
proof
  assume ok: "validate ops order msg = Inr ()"
  then obtain mt spec where gt: "getType ops msg = Inr mt" and sp: "getV2MsgSpec mt = Inr spec"
    by (blast dest: validate_not_Inr)
  from ok obtain seen where "walkAvps ops spec mt (initSeen spec) (avps msg) = Inr seen"
    by (auto simp: validate_unfold [OF gt sp] split: sum.splits)
  then have acc: "\<forall>a\<in>set (avps msg). listedAndDecodable ops spec a"
    by (rule walkAvps_Inr_accepted)
  from validate_after_walk [OF gt sp acc, of order] ok
  have "\<forall>at. hasAvp spec at = Some mustExist \<longrightarrow> at \<in> avpGetType ops ` set (avps msg)"
    by auto
  with gt sp acc show "\<exists>mt spec. getType ops msg = Inr mt \<and> getV2MsgSpec mt = Inr spec \<and>
        (\<forall>a\<in>set (avps msg). listedAndDecodable ops spec a) \<and>
        (\<forall>at. hasAvp spec at = Some mustExist \<longrightarrow> at \<in> avpGetType ops ` set (avps msg))"
    by blast
next
  assume "\<exists>mt spec. getType ops msg = Inr mt \<and> getV2MsgSpec mt = Inr spec \<and>
        (\<forall>a\<in>set (avps msg). listedAndDecodable ops spec a) \<and>
        (\<forall>at. hasAvp spec at = Some mustExist \<longrightarrow> at \<in> avpGetType ops ` set (avps msg))"
  then obtain mt spec where gt: "getType ops msg = Inr mt" and sp: "getV2MsgSpec mt = Inr spec"
    and acc: "\<forall>a\<in>set (avps msg). listedAndDecodable ops spec a"
    and all: "\<forall>at. hasAvp spec at = Some mustExist \<longrightarrow> at \<in> avpGetType ops ` set (avps msg)"
    by blast
  from validate_after_walk [OF gt sp acc, of order] all
  show "validate ops order msg = Inr ()" by blast
qed

lemma validate_unexpected:
  assumes gt: "getType ops msg = Inr mt" and sp: "getV2MsgSpec mt = Inr spec"
    and xs: "avps msg = pre @ a # post"
    and pre: "\<forall>x\<in>set pre. listedAndDecodable ops spec x"
    and un: "hasAvp spec (avpGetType ops a) = None"
  shows "validate ops order msg = Inl (UnexpectedAvp (avpGetType ops a) mt)"
  by (simp add: validate_unfold [OF gt sp] xs walkAvps_first_unlisted [OF pre un])

lemma validate_undecodable:
  assumes gt: "getType ops msg = Inr mt" and sp: "getV2MsgSpec mt = Inr spec"
    and xs: "avps msg = pre @ a # post"
    and pre: "\<forall>x\<in>set pre. listedAndDecodable ops spec x"
    and li: "hasAvp spec (avpGetType ops a) \<noteq> None"
    and de: "avpDecode ops a = Inl e"
  shows "validate ops order msg = Inl (FailedToDecodeAvp (avpGetType ops a) mt e)"
  by (simp add: validate_unfold [OF gt sp] xs walkAvps_first_undecodable [OF pre li de])

lemma sccrq_must:
  "hasAvp v2SccrqMsgSpec at = Some mustExist \<longleftrightarrow>
     at \<in> {avpTypeMessage, avpTypeProtocolVersion, avpTypeHostName, avpTypeFramingCap,
           avpTypeTunnelID}"
  by (auto simp: hasAvp_def v2SccrqMsgSpec_def split: if_splits)

lemma validate_sccrq_no_tunnel_id:
  assumes gt: "getType ops msg = Inr avpMsgTypeSccrq"
    and acc: "\<forall>a\<in>set (avps msg). listedAndDecodable ops v2SccrqMsgSpec a"
    and others: "{avpTypeMessage, avpTypeProtocolVersion, avpTypeHostName, avpTypeFramingCap}
                   \<subseteq> avpGetType ops ` set (avps msg)"
    and no: "avpTypeTunnelID \<notin> avpGetType ops ` set (avps msg)"
  shows "validate ops order msg = Inl (MissingMandatoryAvp avpTypeTunnelID avpMsgTypeSccrq)"
proof -
  have sp: "getV2MsgSpec avpMsgTypeSccrq = Inr v2SccrqMsgSpec" by simp
  from validate_after_walk [OF gt sp acc, of order]
  consider (ok) "\<forall>at. hasAvp v2SccrqMsgSpec at = Some mustExist \<longrightarrow>
                   at \<in> avpGetType ops ` set (avps msg)"
    | (miss) at where "validate ops order msg = Inl (MissingMandatoryAvp at avpMsgTypeSccrq)"
        "hasAvp v2SccrqMsgSpec at = Some mustExist" "at \<notin> avpGetType ops ` set (avps msg)"
    by blast
  then show ?thesis
  proof cases
    case ok
    then have "avpTypeTunnelID \<in> avpGetType ops ` set (avps msg)"
      by (simp add: sccrq_must)
    with no show ?thesis by simp
  next
    case miss
    from miss(2) have "at \<in> {avpTypeMessage, avpTypeProtocolVersion, avpTypeHostName,
        avpTypeFramingCap, avpTypeTunnelID}"
      by (simp only: sccrq_must)
    with miss(3) others have "at = avpTypeTunnelID" by auto
    with miss(1) show ?thesis by simp
  qed
qed

section \<open>Headers and framed messages\<close>

lemma be16_putUint16: "be16 (ucast (drop_bit 8 w)) (ucast (w::uint16)) = w"
  unfolding be16_def
  by (rule bit_word_eqI) (auto simp: bit_simps)

lemma length_v2HeaderBytes: "length (v2HeaderBytes h) = 12"
  by (simp add: v2HeaderBytes_def putUint16_def)

lemma readV2Header_v2HeaderBytes: "readV2Header (v2HeaderBytes h @ rest) = Inr h"
  by (cases h, cases "Common h")
     (simp add: readV2Header_def v2HeaderBytes_def putUint16_def be16_putUint16)

lemma readV2Header_v2HeaderBytes_only: "readV2Header (v2HeaderBytes h) = Inr h"
  using readV2Header_v2HeaderBytes [of h "[]"] by simp

lemma sum_totalLen:
  "list_all (\<lambda>a. avpBytes ops a \<noteq> [] \<and> totalLen ops a = int (length (avpBytes ops a))) xs \<Longrightarrow>
   sum_list (map (totalLen ops) xs) = int (length (concat (map (avpBytes ops) xs)))"
  by (induction xs) auto

lemma bytesToV2CtlMsg_framed:
  assumes "unat (Len (Common h)) = 12 + length body" and "0 < length body"
    and "parseAVPBuffer ops body = Inr (a # xs)" and "avpGetType ops a = avpTypeMessage"
  shows "bytesToV2CtlMsg ops (v2HeaderBytes h @ body) = Inr \<lparr>header = h, avps = a # xs\<rparr>"
  using assms
  by (simp add: bytesToV2CtlMsg_def readV2Header_v2HeaderBytes v2HeaderLen_def subSlice_def
        length_v2HeaderBytes)

lemma bytesToV2CtlMsg_Inr:
  assumes "bytesToV2CtlMsg ops b = Inr msg"
  shows "avps msg = [] \<or>
    (avpGetType ops (hd (avps msg)) = avpTypeMessage \<and>
     parseAVPBuffer ops (subSlice b v2HeaderLen (unat (Len (Common (header msg))))) =
       Inr (avps msg))"
  using assms
  by (auto simp: bytesToV2CtlMsg_def split: sum.splits if_splits list.splits)

text \<open>
  The capacity of the slice matters only when the length field exceeds \<open>len(b)\<close>; the
  buffer parser never passes such a slice. A message decoded from any slice has no AVPs
  or starts with a Message-Type AVP.
\<close>

lemma bytesToV2CtlMsgCap_Nil: "bytesToV2CtlMsgCap ops b [] = bytesToV2CtlMsg ops b"
  by (cases "readV2Header b") (simp_all add: bytesToV2CtlMsgCap_def bytesToV2CtlMsg_def)

lemma bytesToV2CtlMsgCap_within:
  assumes "\<And>h. readV2Header b = Inr h \<Longrightarrow> unat (Len (Common h)) \<le> length b"
  shows "bytesToV2CtlMsgCap ops b spare = bytesToV2CtlMsg ops b"
proof (cases "readV2Header b")
  case (Inl e)
  then show ?thesis by (simp add: bytesToV2CtlMsgCap_def bytesToV2CtlMsg_def)
next
  case (Inr h)
  from assms [OF Inr] have le: "unat (Len (Common h)) \<le> length b" .
  then have "subSlice (b @ spare) v2HeaderLen (unat (Len (Common h))) =
             subSlice b v2HeaderLen (unat (Len (Common h)))"
    by (simp add: subSlice_def)
  with Inr le show ?thesis by (simp add: bytesToV2CtlMsgCap_def bytesToV2CtlMsg_def)
qed


text \<open>
  Whatever the AVP subsystem: a message whose first AVP is not a Message-Type AVP never
  survives encoding and decoding, and a builder given a peer tunnel id in range never
  reports an id out of range, whatever the local tunnel id.
\<close>

lemma roundTrip_other_first_avp:
  assumes "avps msg \<noteq> []" and "avpGetType ops (hd (avps msg)) \<noteq> avpTypeMessage"
  shows "roundTrip ops msg \<noteq> Inr msg"
proof
  assume "roundTrip ops msg = Inr msg"
  then have "bytesToV2CtlMsg ops
      (v2HeaderBytes (header msg) @ concat (map (avpBytes ops) (avps msg))) = Inr msg"
    by (simp add: roundTrip_def toBytes_def)
  from bytesToV2CtlMsg_Inr [OF this] assms show False by simp
qed

lemma appendAvpIns_error:
  "appendAvpIns ops msg ins = Inl e \<Longrightarrow> \<exists>typ s. e = FailedToCreateAvp typ s"
  by (induction ins arbitrary: msg) (auto split: sum.splits)

lemma newV2Stopccn_local_id_unchecked:
  fixes ops :: "('a, 'rc) avpOps"
  assumes "PeerTunnelID cfg \<le> v2TidSidMax"
  shows "newV2Stopccn ops rc cfg \<noteq> Inl (TunnelIdOutOfRange x) \<and>
         newV2Stopccn ops rc cfg \<noteq> Inl (SessionIdOutOfRange x)"
proof -
  define m0 where "m0 = \<lparr>header = newL2tpV2MessageHeader (ucast (PeerTunnelID cfg)) 0 0 0
      (avpsLengthBytes ops []), avps = ([] :: 'a list)\<rparr>"
  from assms have n: "\<not> 65535 < PeerTunnelID cfg"
    by (simp add: v2TidSidMax_def not_less)
  have eq: "buildV2TunnelMsg ops (PeerTunnelID cfg) ins = appendAvpIns ops m0 ins" for ins
    by (simp add: buildV2TunnelMsg_def newV2ControlMessage_def v2TidSidMax_def m0_def n)
  have "e \<noteq> TunnelIdOutOfRange x \<and> e \<noteq> SessionIdOutOfRange x"
    if "appendAvpIns ops m0 ins = Inl e" for e ins
    using appendAvpIns_error [OF that] by auto
  then show ?thesis
    unfolding newV2Stopccn_def eq by blast
qed

section \<open>The claims\<close>

text \<open>
  C1. A buffer holding a Hello message directly followed by a zero-length-body
  acknowledgement should parse into two messages, the read position standing
  \<open>header.length\<close> octets past the start of each decoded message. The parser returns one
  message, the Hello: having read the 4-octet common header it seeks a further
  \<open>header.length\<close> octets, so the position is 24 after the 20-octet Hello, 8 octets
  remain, and the loop ends before the acknowledgement. Both revisions behave so.
\<close>

theorem hello_zlb_buffer_yields_one_message:
  "parseMessageBuffer wireOps helloZlbBuffer = Inr [V2Message helloMsg] \<and>
   ParseMessageBuffer wireOps helloZlbBuffer = Inr [V2Message helloMsg]"
  by code_simp

text \<open>
  C3. For a buffer of at least 12 octets whose first common header has a version nibble
  other than 2 and 3, the parser returns no messages. The length check comes first: when
  \<open>header.length - 4\<close> (in 16-bit arithmetic) exceeds the octets left after the common
  header, the error is the malformed-header one; otherwise it is the
  illegal-protocol-version error. Both revisions.
\<close>

theorem illegal_version_after_length_check:
  assumes len: "12 \<le> length b"
    and hdr: "readCommonHeader b = Inr h"
    and v2: "FlagsVer h AND 0xf \<noteq> 2" and v3: "FlagsVer h AND 0xf \<noteq> 3"
  shows "parseMessageBuffer ops b =
           (if unat (Len h - 4) > length b - 4
            then Inl (MalformedHeaderLength (unat (Len h)) (length b - 4))
            else Inl IllegalProtocolVersion) \<and>
         ParseMessageBuffer ops b =
           (if unat (Len h - 4) > length b - 4
            then Inl (MalformedHeaderLength (unat (Len h)) (length b - 4))
            else Inl IllegalProtocolVersion)"
proof -
  have pv: "protocolVersion h = Inl IllegalProtocolVersion"
    using v2 v3 by (simp add: protocolVersion_def)
  have h0: "readCommonHeader (drop 0 b) = Inr h" and l0: "12 \<le> length b - 0"
    using hdr len by simp_all
  show ?thesis
  proof (cases "unat (Len h - 4) > length b - 4")
    case True
    then have c: "unat (Len h - 4) > length b - (0 + 4)" by simp
    show ?thesis using True
      by (simp add: parseMessageBuffer_def ParseMessageBuffer_def
            parseLoop_malformed [OF l0 h0 c])
  next
    case False
    then have c: "\<not> unat (Len h - 4) > length b - (0 + 4)" by simp
    show ?thesis using False
      by (simp add: parseMessageBuffer_def ParseMessageBuffer_def
            parseLoop_illegal [OF l0 h0 c pv])
  qed
qed

theorem illegal_version_after_length_check_witness:
  "parseMessageBuffer wireOps badVersionBuffer = Inl IllegalProtocolVersion \<and>
   ParseMessageBuffer wireOps badVersionBuffer = Inl IllegalProtocolVersion"
proof -
  have hdr: "readCommonHeader badVersionBuffer = Inr \<lparr>FlagsVer = 0xc801, Len = 12\<rparr>"
    by code_simp
  have len: "12 \<le> length badVersionBuffer"
    by (simp add: badVersionBuffer_def)
  show ?thesis
    using illegal_version_after_length_check [OF len hdr, of wireOps]
    by (simp add: badVersionBuffer_def)
qed

theorem illegal_version_bad_length_counterexample:
  "12 \<le> length badVersionBadLengthBuffer \<and>
   be16 (badVersionBadLengthBuffer ! 0) (badVersionBadLengthBuffer ! 1) AND 0xf = 1 \<and>
   parseMessageBuffer wireOps badVersionBadLengthBuffer = Inl (MalformedHeaderLength 16 8) \<and>
   parseMessageBuffer wireOps badVersionBadLengthBuffer \<noteq> Inl IllegalProtocolVersion"
  by code_simp

text \<open>
  C5. A buffer that holds a 12-octet v2 header whose length field is 12 decodes, in both
  revisions, to a message with that header and no AVPs, whatever the AVP subsystem; the
  derived type of the message is the Acknowledgement pseudo-type.
\<close>

theorem zlb_decodes_to_ack:
  assumes len: "12 \<le> length b" and l12: "be16 (b ! 2) (b ! 3) = 12"
  shows "\<exists>msg. bytesToV2CtlMsg ops b = Inr msg \<and> newL2tpV2ControlMessage ops b = Inr msg \<and>
               Len (Common (header msg)) = 12 \<and> avps msg = [] \<and>
               getType ops msg = Inr avpMsgTypeAck"
  using len l12
  by (auto simp: bytesToV2CtlMsg_def newL2tpV2ControlMessage_def readV2Header_def
        v2HeaderLen_def getType_def)

theorem zlb_decodes_to_ack_witness:
  "bytesToV2CtlMsg wireOps zlbBytes = Inr zlbMsg \<and> avps zlbMsg = [] \<and>
   getType wireOps zlbMsg = Inr avpMsgTypeAck"
proof -
  have len: "12 \<le> length zlbBytes" by (simp add: zlbBytes_def)
  have l12: "be16 (zlbBytes ! 2) (zlbBytes ! 3) = 12" by code_simp
  have dec: "bytesToV2CtlMsg wireOps zlbBytes = Inr zlbMsg" by code_simp
  show ?thesis
    using zlb_decodes_to_ack [OF len l12, of wireOps] dec by auto
qed

text \<open>
  C10. \<open>appendAvp\<close>, for v2 and for v3 messages, appends the AVP and sets the header length
  to (old length + the AVP's total length) modulo 65536: the sum wraps, it neither fails
  nor saturates. Appending an 8-octet AVP to a message of length 65532 leaves length 4.
\<close>

theorem appendAvp_length_mod_65536:
  "uint (Len (Common (header (appendAvp ops msg a)))) =
     (uint (Len (Common (header msg))) + totalLen ops a) mod 65536 \<and>
   avps (appendAvp ops msg a) = avps msg @ [a] \<and>
   uint (Len (v3Common (v3header (appendAvpV3 ops msg3 a)))) =
     (uint (Len (v3Common (v3header msg3))) + totalLen ops a) mod 65536 \<and>
   v3avps (appendAvpV3 ops msg3 a) = v3avps msg3 @ [a]"
  by (simp add: appendAvp_def appendAvpV3_def uint_word_ariths uint_word_of_int mod_add_right_eq)

theorem appendAvp_length_wraps_example:
  "Len (Common (header nearlyFullMsg)) = 0xfffc \<and>
   totalLen wireOps (msgTypeAvp avpMsgTypeHello) = 8 \<and>
   Len (Common (header (appendAvp wireOps nearlyFullMsg (msgTypeAvp avpMsgTypeHello)))) = 4"
  using appendAvp_length_mod_65536 [of wireOps nearlyFullMsg "msgTypeAvp avpMsgTypeHello"]
  by (simp add: nearlyFullMsg_def wireOps_def wireTotalLen_def msgTypeAvp_def putUint16_def
        appendAvp_def)

text \<open>
  C8. The two revisions differ. In the earlier one (\<open>l2tp/msg.go\<close>) the v3 decoder is a
  stub: for every buffer it fails with the not-implemented error. In the later one
  \<open>bytesToV3CtlMsg\<close> decodes: it never returns the not-implemented error, and a message
  it returns carries the 12-octet header read from the buffer and the AVPs parsed from
  the rest of the frame, the first of them a Message-Type AVP.
\<close>

theorem v3_decode_by_revision:
  "(newL2tpV3ControlMessage b :: error + 'a v3ControlMessage) = Inl NotImplemented \<and>
   bytesToV3CtlMsg ops b \<noteq> Inl NotImplemented \<and>
   (bytesToV3CtlMsg ops b = Inr msg \<longrightarrow>
      readV3Header b = Inr (v3header msg) \<and>
      parseAVPBuffer ops (subSlice b v3HeaderLen (unat (Len (v3Common (v3header msg))))) =
        Inr (v3avps msg) \<and>
      v3avps msg \<noteq> [] \<and> avpGetType ops (hd (v3avps msg)) = avpTypeMessage)"
  by (auto simp: newL2tpV3ControlMessage_def bytesToV3CtlMsg_def readV3Header_def
        split: sum.splits list.splits if_splits)

theorem v3_decode_by_revision_witness:
  "bytesToV3CtlMsg wireOps v3HelloBytes = Inr v3HelloMsg \<and>
   readV3Header v3HelloBytes = Inr (v3header v3HelloMsg) \<and>
   v3avps v3HelloMsg \<noteq> [] \<and> avpGetType wireOps (hd (v3avps v3HelloMsg)) = avpTypeMessage"
proof -
  have dec: "bytesToV3CtlMsg wireOps v3HelloBytes = Inr v3HelloMsg" by code_simp
  show ?thesis
    using v3_decode_by_revision [of v3HelloBytes wireOps v3HelloMsg] dec by blast
qed

theorem v3_decode_produces_message_counterexample:
  "bytesToV3CtlMsg wireOps v3HelloBytes = Inr v3HelloMsg \<and>
   parseMessageBuffer wireOps v3HelloBytes = Inr [V3Message v3HelloMsg] \<and>
   bytesToV3CtlMsg wireOps [] = Inl ErrEOF"
  by code_simp

text \<open>
  C6. \<open>newV2ControlMessage\<close> fails with an id-out-of-range error, before the header is
  made, when the tunnel id or the session id it is given exceeds 65535. The message
  builders hand it the peer tunnel id of the configuration (and session id 0), so a
  StopCCN, SCCRP, SCCCN or Hello for peer tunnel id 70000 fails that way.
\<close>

theorem builder_id_range_check:
  "(v2TidSidMax < tid \<longrightarrow> newV2ControlMessage ops tid sid xs = Inl (TunnelIdOutOfRange tid)) \<and>
   (tid \<le> v2TidSidMax \<and> v2TidSidMax < sid \<longrightarrow>
      newV2ControlMessage ops tid sid xs = Inl (SessionIdOutOfRange sid)) \<and>
   (v2TidSidMax < ptid \<longrightarrow> buildV2TunnelMsg ops ptid ins = Inl (TunnelIdOutOfRange ptid)) \<and>
   (v2TidSidMax < PeerTunnelID cfg \<longrightarrow>
      newV2Stopccn ops rc cfg = Inl (TunnelIdOutOfRange (PeerTunnelID cfg)) \<and>
      newV2Sccrp ops cfg = Inl (TunnelIdOutOfRange (PeerTunnelID cfg)) \<and>
      newV2Scccn ops cfg = Inl (TunnelIdOutOfRange (PeerTunnelID cfg)) \<and>
      newV2Hello ops cfg = Inl (TunnelIdOutOfRange (PeerTunnelID cfg)))"
  by (auto simp: newV2ControlMessage_def buildV2TunnelMsg_def newV2Stopccn_def newV2Sccrp_def
        newV2Scccn_def newV2Hello_def)

theorem builder_id_range_check_witness:
  "v2TidSidMax < PeerTunnelID peerIdTooBigConfig \<and>
   newV2Stopccn wireOps 1 peerIdTooBigConfig = Inl (TunnelIdOutOfRange 70000) \<and>
   newV2ControlMessage wireOps 70000 0 [] = Inl (TunnelIdOutOfRange 70000) \<and>
   newV2ControlMessage wireOps 1 70000 [] = Inl (SessionIdOutOfRange 70000)"
  using builder_id_range_check [of 70000 wireOps 0 "[]" 70000 "[]" peerIdTooBigConfig 1]
    builder_id_range_check [of 1 wireOps 70000 "[]" 70000 "[]" peerIdTooBigConfig 1]
  by (simp add: peerIdTooBigConfig_def v2TidSidMax_def)

text \<open>
  The locally assigned tunnel id of the configuration is not checked: the builders convert
  it with \<open>uint16(cfg.TunnelID)\<close> for the Tunnel-ID AVP. A StopCCN for local tunnel id
  70000 is built, and announces tunnel id 4464 (octets 11 70).
\<close>

theorem stopccn_local_id_truncated_counterexample:
  "v2TidSidMax < TunnelID localIdTooBigConfig \<and>
   newV2Stopccn wireOps 1 localIdTooBigConfig =
     Inr \<lparr>header = \<lparr>Common = \<lparr>FlagsVer = 0xc802, Len = 36\<rparr>, Tid = 1, Sid = 0, Ns = 0, Nr = 0\<rparr>,
          avps = [\<lparr>wireFlagLen = 0x8008, wireVendorID = 0, wireAvpType = 0, wireData = [0, 4]\<rparr>,
                  \<lparr>wireFlagLen = 0x8008, wireVendorID = 0, wireAvpType = 9, wireData = [0x11, 0x70]\<rparr>,
                  \<lparr>wireFlagLen = 0x8008, wireVendorID = 0, wireAvpType = 1, wireData = [0, 1]\<rparr>]\<rparr>"
  by code_simp

text \<open>
  C4. \<open>validate\<close> succeeds exactly when the derived message type has a specification,
  every AVP of the message has a type listed there and a value that decodes, and every
  \<open>mustExist\<close> type of the specification occurs among the AVPs. The first AVP of the
  sequence that is not accepted decides the error: unexpected AVP when its type is not
  listed, the wrapped decode error when its value does not decode. When all AVPs are
  accepted and a \<open>mustExist\<close> type is absent, the error is missing mandatory AVP, naming
  an absent \<open>mustExist\<close> type. An SCCRQ with accepted AVPs that has the other four
  mandatory types and no Tunnel-ID AVP fails with missing mandatory AVP Tunnel-ID. All of
  this for every order in which \<open>range\<close> may visit the map \<open>seen\<close>.
\<close>

theorem validate_outcomes:
  "(validate ops order msg = Inr () \<longleftrightarrow>
      (\<exists>mt spec. getType ops msg = Inr mt \<and> getV2MsgSpec mt = Inr spec \<and>
         (\<forall>x\<in>set (avps msg). listedAndDecodable ops spec x) \<and>
         (\<forall>at. hasAvp spec at = Some mustExist \<longrightarrow> at \<in> avpGetType ops ` set (avps msg)))) \<and>
   (getType ops msg = Inr mt \<and> getV2MsgSpec mt = Inr spec \<and> avps msg = pre @ a # post \<and>
    (\<forall>x\<in>set pre. listedAndDecodable ops spec x) \<longrightarrow>
      (hasAvp spec (avpGetType ops a) = None \<longrightarrow>
         validate ops order msg = Inl (UnexpectedAvp (avpGetType ops a) mt)) \<and>
      (hasAvp spec (avpGetType ops a) \<noteq> None \<and> avpDecode ops a = Inl e \<longrightarrow>
         validate ops order msg = Inl (FailedToDecodeAvp (avpGetType ops a) mt e))) \<and>
   (getType ops msg = Inr mt \<and> getV2MsgSpec mt = Inr spec \<and>
    (\<forall>x\<in>set (avps msg). listedAndDecodable ops spec x) \<and>
    (\<exists>at. hasAvp spec at = Some mustExist \<and> at \<notin> avpGetType ops ` set (avps msg)) \<longrightarrow>
      (\<exists>at. validate ops order msg = Inl (MissingMandatoryAvp at mt) \<and>
         hasAvp spec at = Some mustExist \<and> at \<notin> avpGetType ops ` set (avps msg))) \<and>
   (getType ops msg = Inr avpMsgTypeSccrq \<and>
    (\<forall>x\<in>set (avps msg). listedAndDecodable ops v2SccrqMsgSpec x) \<and>
    {avpTypeMessage, avpTypeProtocolVersion, avpTypeHostName, avpTypeFramingCap}
       \<subseteq> avpGetType ops ` set (avps msg) \<and>
    avpTypeTunnelID \<notin> avpGetType ops ` set (avps msg) \<longrightarrow>
      validate ops order msg = Inl (MissingMandatoryAvp avpTypeTunnelID avpMsgTypeSccrq))"
proof (intro conjI impI)
  show "validate ops order msg = Inr () \<longleftrightarrow>
      (\<exists>mt spec. getType ops msg = Inr mt \<and> getV2MsgSpec mt = Inr spec \<and>
         (\<forall>x\<in>set (avps msg). listedAndDecodable ops spec x) \<and>
         (\<forall>at. hasAvp spec at = Some mustExist \<longrightarrow> at \<in> avpGetType ops ` set (avps msg)))"
    by (rule validate_ok_iff)
next
  assume "getType ops msg = Inr mt \<and> getV2MsgSpec mt = Inr spec \<and> avps msg = pre @ a # post \<and>
    (\<forall>x\<in>set pre. listedAndDecodable ops spec x)"
    and "hasAvp spec (avpGetType ops a) = None"
  then show "validate ops order msg = Inl (UnexpectedAvp (avpGetType ops a) mt)"
    by (blast intro: validate_unexpected)
next
  assume "getType ops msg = Inr mt \<and> getV2MsgSpec mt = Inr spec \<and> avps msg = pre @ a # post \<and>
    (\<forall>x\<in>set pre. listedAndDecodable ops spec x)"
    and "hasAvp spec (avpGetType ops a) \<noteq> None \<and> avpDecode ops a = Inl e"
  then show "validate ops order msg = Inl (FailedToDecodeAvp (avpGetType ops a) mt e)"
    by (blast intro: validate_undecodable)
next
  assume h: "getType ops msg = Inr mt \<and> getV2MsgSpec mt = Inr spec \<and>
    (\<forall>x\<in>set (avps msg). listedAndDecodable ops spec x) \<and>
    (\<exists>at. hasAvp spec at = Some mustExist \<and> at \<notin> avpGetType ops ` set (avps msg))"
  then have gt: "getType ops msg = Inr mt" and sp: "getV2MsgSpec mt = Inr spec"
    and acc: "\<forall>x\<in>set (avps msg). listedAndDecodable ops spec x" by blast+
  from validate_after_walk [OF gt sp acc, of order] h
  show "\<exists>at. validate ops order msg = Inl (MissingMandatoryAvp at mt) \<and>
         hasAvp spec at = Some mustExist \<and> at \<notin> avpGetType ops ` set (avps msg)"
    by blast
next
  assume "getType ops msg = Inr avpMsgTypeSccrq \<and>
    (\<forall>x\<in>set (avps msg). listedAndDecodable ops v2SccrqMsgSpec x) \<and>
    {avpTypeMessage, avpTypeProtocolVersion, avpTypeHostName, avpTypeFramingCap}
       \<subseteq> avpGetType ops ` set (avps msg) \<and>
    avpTypeTunnelID \<notin> avpGetType ops ` set (avps msg)"
  then show "validate ops order msg = Inl (MissingMandatoryAvp avpTypeTunnelID avpMsgTypeSccrq)"
    by (intro validate_sccrq_no_tunnel_id) blast+
qed

theorem validate_outcomes_witness:
  "validate wireOps [] sccrqMsg = Inr () \<and>
   validate wireOps [] sccrqNoTunnelIdMsg =
     Inl (MissingMandatoryAvp avpTypeTunnelID avpMsgTypeSccrq) \<and>
   validate wireOps [] helloWithHostNameMsg = Inl (UnexpectedAvp avpTypeHostName avpMsgTypeHello) \<and>
   validate wireOps [] sccrqBadTunnelIdMsg =
     Inl (FailedToDecodeAvp avpTypeTunnelID avpMsgTypeSccrq ''expected 2 octets'')"
proof -
  have sp: "getV2MsgSpec avpMsgTypeSccrq = Inr v2SccrqMsgSpec"
    and sph: "getV2MsgSpec avpMsgTypeHello = Inr v2HelloMsgSpec" by simp_all
  \<comment> \<open>a complete SCCRQ\<close>
  have gt1: "getType wireOps sccrqMsg = Inr avpMsgTypeSccrq" by code_simp
  have acc1: "\<forall>x\<in>set (avps sccrqMsg). listedAndDecodable wireOps v2SccrqMsgSpec x"
    by code_simp
  have "{avpTypeMessage, avpTypeProtocolVersion, avpTypeHostName, avpTypeFramingCap,
         avpTypeTunnelID} \<subseteq> avpGetType wireOps ` set (avps sccrqMsg)"
    by code_simp
  then have all1: "\<forall>at. hasAvp v2SccrqMsgSpec at = Some mustExist \<longrightarrow>
      at \<in> avpGetType wireOps ` set (avps sccrqMsg)"
    unfolding sccrq_must by blast
  have r1: "validate wireOps [] sccrqMsg = Inr ()"
    using validate_outcomes [where ops = wireOps and order = "[]" and msg = sccrqMsg
        and mt = avpMsgTypeSccrq and spec = v2SccrqMsgSpec and pre = "[]"
        and a = "hd (avps sccrqMsg)" and post = "[]" and e = "[]"]
      gt1 sp acc1 all1
    by blast
  \<comment> \<open>the same without the Tunnel-ID AVP\<close>
  have gt2: "getType wireOps sccrqNoTunnelIdMsg = Inr avpMsgTypeSccrq" by code_simp
  have acc2: "\<forall>x\<in>set (avps sccrqNoTunnelIdMsg). listedAndDecodable wireOps v2SccrqMsgSpec x"
    by code_simp
  have sub2: "{avpTypeMessage, avpTypeProtocolVersion, avpTypeHostName, avpTypeFramingCap}
      \<subseteq> avpGetType wireOps ` set (avps sccrqNoTunnelIdMsg)"
    by code_simp
  have no2: "avpTypeTunnelID \<notin> avpGetType wireOps ` set (avps sccrqNoTunnelIdMsg)"
    by code_simp
  have r2: "validate wireOps [] sccrqNoTunnelIdMsg =
      Inl (MissingMandatoryAvp avpTypeTunnelID avpMsgTypeSccrq)"
    using validate_outcomes [where ops = wireOps and order = "[]" and msg = sccrqNoTunnelIdMsg
        and mt = avpMsgTypeSccrq and spec = v2SccrqMsgSpec and pre = "[]"
        and a = "hd (avps sccrqNoTunnelIdMsg)" and post = "[]" and e = "[]"]
      gt2 acc2 sub2 no2
    by blast
  \<comment> \<open>a Hello that carries a Host-Name AVP\<close>
  have gt3: "getType wireOps helloWithHostNameMsg = Inr avpMsgTypeHello" by code_simp
  have xs3: "avps helloWithHostNameMsg =
      [mkWireAvp avpTypeMessage (DataMsgType avpMsgTypeHello)] @
      mkWireAvp avpTypeHostName (DataString ''rincewind'') # []"
    by (simp add: helloWithHostNameMsg_def)
  have pre3: "\<forall>x\<in>set [mkWireAvp avpTypeMessage (DataMsgType avpMsgTypeHello)].
      listedAndDecodable wireOps v2HelloMsgSpec x"
    by code_simp
  have ty3: "avpGetType wireOps (mkWireAvp avpTypeHostName (DataString ''rincewind'')) =
      avpTypeHostName"
    by code_simp
  have un3: "hasAvp v2HelloMsgSpec avpTypeHostName = None"
    by (simp add: hasAvp_def v2HelloMsgSpec_def)
  have r3: "validate wireOps [] helloWithHostNameMsg =
      Inl (UnexpectedAvp avpTypeHostName avpMsgTypeHello)"
    using validate_outcomes [where ops = wireOps and order = "[]" and msg = helloWithHostNameMsg
        and mt = avpMsgTypeHello and spec = v2HelloMsgSpec
        and pre = "[mkWireAvp avpTypeMessage (DataMsgType avpMsgTypeHello)]"
        and a = "mkWireAvp avpTypeHostName (DataString ''rincewind'')" and post = "[]"
        and e = "[]"]
      gt3 sph xs3 pre3 un3
    unfolding ty3 by blast
  \<comment> \<open>an SCCRQ whose Tunnel-ID AVP has a one-octet payload\<close>
  have gt4: "getType wireOps sccrqBadTunnelIdMsg = Inr avpMsgTypeSccrq" by code_simp
  have xs4: "avps sccrqBadTunnelIdMsg =
      [mkWireAvp avpTypeMessage (DataMsgType avpMsgTypeSccrq)] @
      mkWireAvp avpTypeTunnelID (DataBytes [42]) # []"
    by (simp add: sccrqBadTunnelIdMsg_def)
  have pre4: "\<forall>x\<in>set [mkWireAvp avpTypeMessage (DataMsgType avpMsgTypeSccrq)].
      listedAndDecodable wireOps v2SccrqMsgSpec x"
    by code_simp
  have ty4: "avpGetType wireOps (mkWireAvp avpTypeTunnelID (DataBytes [42])) = avpTypeTunnelID"
    by code_simp
  have li4: "hasAvp v2SccrqMsgSpec avpTypeTunnelID \<noteq> None"
    by (simp add: hasAvp_def v2SccrqMsgSpec_def)
  have de4: "avpDecode wireOps (mkWireAvp avpTypeTunnelID (DataBytes [42])) =
      Inl ''expected 2 octets''"
    by code_simp
  have r4: "validate wireOps [] sccrqBadTunnelIdMsg =
      Inl (FailedToDecodeAvp avpTypeTunnelID avpMsgTypeSccrq ''expected 2 octets'')"
    using validate_outcomes [where ops = wireOps and order = "[]" and msg = sccrqBadTunnelIdMsg
        and mt = avpMsgTypeSccrq and spec = v2SccrqMsgSpec
        and pre = "[mkWireAvp avpTypeMessage (DataMsgType avpMsgTypeSccrq)]"
        and a = "mkWireAvp avpTypeTunnelID (DataBytes [42])" and post = "[]"
        and e = "''expected 2 octets''"]
      gt4 sp xs4 pre4 li4 de4
    unfolding ty4 by blast
  from r1 r2 r3 r4 show ?thesis by blast
qed

text \<open>
  C9. Two calls of \<open>validate\<close> on the same message differ at most in the order in which
  \<open>range\<close> visits \<open>seen\<close>. Both succeed or both fail. The two results are equal, unless
  two different mandatory types are missing: then both calls fail with missing mandatory
  AVP, and each may name a different missing type.
\<close>

theorem validate_twice:
  "(validate ops order1 msg = Inr () \<longleftrightarrow> validate ops order2 msg = Inr ()) \<and>
   (validate ops order1 msg = validate ops order2 msg \<or>
    (\<exists>at1 at2 mt spec.
       getType ops msg = Inr mt \<and> getV2MsgSpec mt = Inr spec \<and> at1 \<noteq> at2 \<and>
       hasAvp spec at1 = Some mustExist \<and> at1 \<notin> avpGetType ops ` set (avps msg) \<and>
       hasAvp spec at2 = Some mustExist \<and> at2 \<notin> avpGetType ops ` set (avps msg) \<and>
       validate ops order1 msg = Inl (MissingMandatoryAvp at1 mt) \<and>
       validate ops order2 msg = Inl (MissingMandatoryAvp at2 mt)))"
proof (cases "getType ops msg")
  case (Inl e)
  then show ?thesis by (simp add: validate_def)
next
  case gt: (Inr mt)
  show ?thesis
  proof (cases "getV2MsgSpec mt")
    case (Inl e)
    with gt show ?thesis by (simp add: validate_def)
  next
    case sp: (Inr spec)
    show ?thesis
    proof (cases "walkAvps ops spec mt (initSeen spec) (avps msg)")
      case (Inl e)
      then show ?thesis by (simp add: validate_unfold [OF gt sp])
    next
      case (Inr seen)
      then have acc: "\<forall>a\<in>set (avps msg). listedAndDecodable ops spec a"
        by (rule walkAvps_Inr_accepted)
      consider (ok1) "validate ops order1 msg = Inr ()"
          "\<forall>at. hasAvp spec at = Some mustExist \<longrightarrow> at \<in> avpGetType ops ` set (avps msg)"
        | (miss1) at1 where "validate ops order1 msg = Inl (MissingMandatoryAvp at1 mt)"
          "hasAvp spec at1 = Some mustExist" "at1 \<notin> avpGetType ops ` set (avps msg)"
        using validate_after_walk [OF gt sp acc, of order1] by blast
      then show ?thesis
      proof cases
        case ok1
        with validate_after_walk [OF gt sp acc, of order2]
        have "validate ops order2 msg = Inr ()" by blast
        with ok1 show ?thesis by simp
      next
        case miss1
        with validate_after_walk [OF gt sp acc, of order2]
        obtain at2 where m2: "validate ops order2 msg = Inl (MissingMandatoryAvp at2 mt)"
          "hasAvp spec at2 = Some mustExist" "at2 \<notin> avpGetType ops ` set (avps msg)"
          by blast
        show ?thesis
        proof (cases "at1 = at2")
          case True
          with miss1 m2 show ?thesis by simp
        next
          case False
          with miss1 m2 gt sp show ?thesis by (simp add: exI [of _ at1] exI [of _ at2])
        qed
      qed
    qed
  qed
qed

theorem validate_twice_witness:
  "validate wireOps [] sccrqMsg = Inr () \<and> validate wireOps [avpTypeTunnelID] sccrqMsg = Inr ()"
proof -
  have "validate wireOps [] sccrqMsg = Inr ()" by code_simp
  then show ?thesis
    using validate_twice [of wireOps "[]" sccrqMsg "[avpTypeTunnelID]"] by simp
qed

text \<open>
  An SCCRQ that consists of its Message-Type AVP lacks four mandatory types; the call
  whose loop visits Protocol-Version first and the call whose loop visits Tunnel-ID first
  return different errors.
\<close>

theorem validate_twice_counterexample:
  "validate wireOps [avpTypeProtocolVersion] sccrqOnlyTypeMsg =
     Inl (MissingMandatoryAvp avpTypeProtocolVersion avpMsgTypeSccrq) \<and>
   validate wireOps [avpTypeTunnelID] sccrqOnlyTypeMsg =
     Inl (MissingMandatoryAvp avpTypeTunnelID avpMsgTypeSccrq) \<and>
   validate wireOps [avpTypeProtocolVersion] sccrqOnlyTypeMsg \<noteq>
     validate wireOps [avpTypeTunnelID] sccrqOnlyTypeMsg"
  by code_simp

text \<open>
  C2. Encoding a v2 message and decoding the bytes gives the message back, header and AVPs,
  when its header length is 12 plus the total lengths of its AVPs, its AVP sequence is empty
  or starts with a Message-Type AVP, and the AVP codec round-trips on its AVPs. The decoder
  rejects any other first AVP, so the second condition cannot be dropped.
\<close>

theorem roundtrip_message_type_first:
  assumes len: "uint (Len (Common (header msg))) = 12 + sum_list (map (totalLen ops) (avps msg))"
    and first: "avps msg = [] \<or> avpGetType ops (hd (avps msg)) = avpTypeMessage"
    and codec: "avpCodecRoundTrips ops (avps msg)"
  shows "roundTrip ops msg = Inr msg"
proof -
  let ?body = "concat (map (avpBytes ops) (avps msg))"
  let ?b = "v2HeaderBytes (header msg) @ ?body"
  from codec have la: "list_all (\<lambda>a. avpBytes ops a \<noteq> [] \<and>
      totalLen ops a = int (length (avpBytes ops a))) (avps msg)"
    and parse: "parseAVPBuffer ops ?body = Inr (avps msg)"
    by (simp_all add: avpCodecRoundTrips_def)
  have "uint (Len (Common (header msg))) = 12 + int (length ?body)"
    using len sum_totalLen [OF la] by simp
  then have ul: "unat (Len (Common (header msg))) = 12 + length ?body"
    by (simp add: unat_eq_nat_uint)
  have rt: "roundTrip ops msg = bytesToV2CtlMsg ops ?b"
    by (simp add: roundTrip_def toBytes_def)
  show ?thesis
  proof (cases "avps msg")
    case Nil
    then show ?thesis
      using ul
      by (simp add: rt bytesToV2CtlMsg_def readV2Header_v2HeaderBytes_only v2HeaderLen_def)
  next
    case (Cons a xs)
    with la have "avpBytes ops a \<noteq> []" by simp
    with Cons have pos: "0 < length ?body" by simp
    from Cons first have ty: "avpGetType ops a = avpTypeMessage" by simp
    from parse Cons have "parseAVPBuffer ops ?body = Inr (a # xs)" by simp
    from bytesToV2CtlMsg_framed [OF ul pos this ty] Cons
    have "bytesToV2CtlMsg ops ?b = Inr \<lparr>header = header msg, avps = avps msg\<rparr>"
      by simp
    then show ?thesis by (simp add: rt)
  qed
qed

theorem roundtrip_message_type_first_witness:
  "roundTrip wireOps helloMsg = Inr helloMsg \<and> roundTrip wireOps sccrqMsg = Inr sccrqMsg"
proof -
  have l1: "uint (Len (Common (header helloMsg))) =
      12 + sum_list (map (totalLen wireOps) (avps helloMsg))" by code_simp
  have f1: "avps helloMsg = [] \<or> avpGetType wireOps (hd (avps helloMsg)) = avpTypeMessage"
    by code_simp
  have c1: "avpCodecRoundTrips wireOps (avps helloMsg)" by code_simp
  have l2: "uint (Len (Common (header sccrqMsg))) =
      12 + sum_list (map (totalLen wireOps) (avps sccrqMsg))" by code_simp
  have f2: "avps sccrqMsg = [] \<or> avpGetType wireOps (hd (avps sccrqMsg)) = avpTypeMessage"
    by code_simp
  have c2: "avpCodecRoundTrips wireOps (avps sccrqMsg)" by code_simp
  show ?thesis
    using roundtrip_message_type_first [OF l1 f1 c1] roundtrip_message_type_first [OF l2 f2 c2]
    by simp
qed

text \<open>
  \<open>newV2ControlMessage\<close> builds a message whose only AVP is a Host-Name AVP, with the
  header length 27 = 12 + 15; it encodes, and the decoder refuses the bytes.
\<close>

theorem roundtrip_first_avp_not_message_type_counterexample:
  "newV2ControlMessage wireOps 0 0 [mkWireAvp avpTypeHostName (DataString ''rincewind'')] =
     Inr hostNameOnlyMsg \<and>
   uint (Len (Common (header hostNameOnlyMsg))) =
     12 + sum_list (map (totalLen wireOps) (avps hostNameOnlyMsg)) \<and>
   avpCodecRoundTrips wireOps (avps hostNameOnlyMsg) \<and>
   roundTrip wireOps hostNameOnlyMsg = Inl FirstAvpNotMessageTypeV2 \<and>
   roundTrip wireOps hostNameOnlyMsg \<noteq> Inr hostNameOnlyMsg"
  by code_simp




end
